theory Spec2Isabelle
  imports Main "HOL-Library.Log_Nat" "HOL-Library.Word"
begin

section \<open>float64 values and arithmetic\<close>

text \<open>
  Every number in the controller is a Go \<^verbatim>\<open>float64\<close>: an IEEE 754 binary64 value.
  A value is a NaN, an infinity with its sign bit, or a finite number given by its sign
  bit and its magnitude (so that the two zeros are distinct values). Arithmetic rounds the
  exact result to the nearest representable value, ties to even, each operation on its
  own (no fused multiply-add, as on amd64), and overflows to an infinity. The sign bit
  \<open>True\<close> is the negative sign.
\<close>

datatype f64 = NaN | Infinity bool | Finite bool rat

fun is_nan :: "f64 \<Rightarrow> bool" where
  "is_nan NaN = True"
| "is_nan (Infinity s) = False"
| "is_nan (Finite s m) = False"

fun is_finite :: "f64 \<Rightarrow> bool" where
  "is_finite NaN = False"
| "is_finite (Infinity s) = False"
| "is_finite (Finite s m) = True"

fun signbit :: "f64 \<Rightarrow> bool" where
  "signbit NaN = False"
| "signbit (Infinity s) = s"
| "signbit (Finite s m) = s"

text \<open>The signed value of a finite number.\<close>

fun valf :: "f64 \<Rightarrow> rat" where
  "valf (Finite s m) = (if s then - m else m)"
| "valf NaN = 0"
| "valf (Infinity s) = 0"

text \<open>Rounding a rational to the nearest integer, ties to the even one.\<close>

definition rhe :: "rat \<Rightarrow> int" where
  "rhe x = (let f = \<lfloor>x\<rfloor>; d = x - of_int f in
     if d < 1 / 2 then f else if 1 / 2 < d then f + 1 else if even f then f else f + 1)"

text \<open>The binary exponent of a positive rational: \<open>2 powi flog2 m \<le> m < 2 powi (flog2 m + 1)\<close>.\<close>

definition flog2 :: "rat \<Rightarrow> int" where
  "flog2 m = (if 1 \<le> m then bitlen \<lfloor>m\<rfloor> - 1 else - bitlen (\<lceil>1 / m\<rceil> - 1))"

text \<open>
  The exponent of the unit in the last place at \<open>m\<close>: 52 fraction bits below the binary
  exponent, which is never below that of the subnormal range, \<open>-1022\<close>.
\<close>

definition qexp :: "rat \<Rightarrow> int" where
  "qexp m = max (flog2 m) (- 1022) - 52"

text \<open>Rounding a magnitude to the binary64 grid, the exponent still unbounded above.\<close>

definition round_mag :: "rat \<Rightarrow> rat" where
  "round_mag m = (if m = 0 then 0 else
     let q = 2 powi qexp m in of_int (rhe (m / q)) * q)"

text \<open>Rounding a sign and an exact magnitude to a float64; \<open>2 ^ 1024\<close> and above overflow.\<close>

definition round_sm :: "bool \<Rightarrow> rat \<Rightarrow> f64" where
  "round_sm s m = (let v = round_mag m in if 2 ^ 1024 \<le> v then Infinity s else Finite s v)"

text \<open>A numeric constant of the source, and an integer, converted to float64.\<close>

definition f64_of_rat :: "rat \<Rightarrow> f64" where
  "f64_of_rat r = round_sm (r < 0) \<bar>r\<bar>"

definition f64_of_int :: "int \<Rightarrow> f64" where
  "f64_of_int i = round_sm (i < 0) \<bar>of_int i\<bar>"

text \<open>
  The values of the datatype that are float64 values: the magnitude of a finite one is
  not negative, below \<open>2 ^ 1024\<close>, and on the binary64 grid (rounding leaves it unchanged).
\<close>

fun is_f64 :: "f64 \<Rightarrow> bool" where
  "is_f64 (Finite s m) = (0 \<le> m \<and> m < 2 ^ 1024 \<and> round_mag m = m)"
| "is_f64 NaN = True"
| "is_f64 (Infinity s) = True"

fun fneg :: "f64 \<Rightarrow> f64" where
  "fneg NaN = NaN"
| "fneg (Infinity s) = Infinity (\<not> s)"
| "fneg (Finite s m) = Finite (\<not> s) m"

fun fadd :: "f64 \<Rightarrow> f64 \<Rightarrow> f64" where
  "fadd NaN y = NaN"
| "fadd (Infinity s) NaN = NaN"
| "fadd (Finite s a) NaN = NaN"
| "fadd (Infinity s) (Infinity t) = (if s = t then Infinity s else NaN)"
| "fadd (Infinity s) (Finite t b) = Infinity s"
| "fadd (Finite s a) (Infinity t) = Infinity t"
| "fadd (Finite s a) (Finite t b) =
     (let r = valf (Finite s a) + valf (Finite t b) in
      if r = 0 then Finite (s \<and> t) 0 else round_sm (r < 0) \<bar>r\<bar>)"

definition fsub :: "f64 \<Rightarrow> f64 \<Rightarrow> f64" where
  "fsub x y = fadd x (fneg y)"

fun fmul :: "f64 \<Rightarrow> f64 \<Rightarrow> f64" where
  "fmul NaN y = NaN"
| "fmul (Infinity s) NaN = NaN"
| "fmul (Finite s a) NaN = NaN"
| "fmul (Infinity s) (Infinity t) = Infinity (s \<noteq> t)"
| "fmul (Infinity s) (Finite t b) = (if b = 0 then NaN else Infinity (s \<noteq> t))"
| "fmul (Finite s a) (Infinity t) = (if a = 0 then NaN else Infinity (s \<noteq> t))"
| "fmul (Finite s a) (Finite t b) = round_sm (s \<noteq> t) (a * b)"

fun fdiv :: "f64 \<Rightarrow> f64 \<Rightarrow> f64" where
  "fdiv NaN y = NaN"
| "fdiv (Infinity s) NaN = NaN"
| "fdiv (Finite s a) NaN = NaN"
| "fdiv (Infinity s) (Infinity t) = NaN"
| "fdiv (Infinity s) (Finite t b) = Infinity (s \<noteq> t)"
| "fdiv (Finite s a) (Infinity t) = Finite (s \<noteq> t) 0"
| "fdiv (Finite s a) (Finite t b) =
     (if b = 0 then (if a = 0 then NaN else Infinity (s \<noteq> t))
      else round_sm (s \<noteq> t) (a / b))"

text \<open>Go's comparisons: false whenever an operand is NaN; the two zeros are equal.\<close>

fun f64_lt :: "f64 \<Rightarrow> f64 \<Rightarrow> bool" where
  "f64_lt NaN y = False"
| "f64_lt (Infinity s) NaN = False"
| "f64_lt (Finite s a) NaN = False"
| "f64_lt (Infinity s) (Infinity t) = (s \<and> \<not> t)"
| "f64_lt (Infinity s) (Finite t b) = s"
| "f64_lt (Finite s a) (Infinity t) = (\<not> t)"
| "f64_lt (Finite s a) (Finite t b) = (valf (Finite s a) < valf (Finite t b))"

fun f64_le :: "f64 \<Rightarrow> f64 \<Rightarrow> bool" where
  "f64_le NaN y = False"
| "f64_le (Infinity s) NaN = False"
| "f64_le (Finite s a) NaN = False"
| "f64_le (Infinity s) (Infinity t) = (s \<or> \<not> t)"
| "f64_le (Infinity s) (Finite t b) = s"
| "f64_le (Finite s a) (Infinity t) = (\<not> t)"
| "f64_le (Finite s a) (Finite t b) = (valf (Finite s a) \<le> valf (Finite t b))"

fun f64_eq :: "f64 \<Rightarrow> f64 \<Rightarrow> bool" where
  "f64_eq NaN y = False"
| "f64_eq (Infinity s) NaN = False"
| "f64_eq (Finite s a) NaN = False"
| "f64_eq (Infinity s) (Infinity t) = (s = t)"
| "f64_eq (Infinity s) (Finite t b) = False"
| "f64_eq (Finite s a) (Infinity t) = False"
| "f64_eq (Finite s a) (Finite t b) = (valf (Finite s a) = valf (Finite t b))"

definition f64_gt :: "f64 \<Rightarrow> f64 \<Rightarrow> bool" where
  "f64_gt x y = f64_lt y x"

definition f64_ne :: "f64 \<Rightarrow> f64 \<Rightarrow> bool" where
  "f64_ne x y = (\<not> f64_eq x y)"

text \<open>
  Go's built-in \<^verbatim>\<open>min\<close> and \<^verbatim>\<open>max\<close> on floats: NaN if an argument is
  NaN, and the negative zero is smaller than the positive one.
\<close>

definition fmin :: "f64 \<Rightarrow> f64 \<Rightarrow> f64" where
  "fmin x y =
     (if is_nan y \<or> f64_lt y x then y
      else if is_nan x \<or> f64_lt x y \<or> f64_ne x (Finite False 0) then x
      else Finite (signbit x \<or> signbit y) 0)"

definition fmax :: "f64 \<Rightarrow> f64 \<Rightarrow> f64" where
  "fmax x y =
     (if is_nan y \<or> f64_lt x y then y
      else if is_nan x \<or> f64_lt y x \<or> f64_ne x (Finite False 0) then x
      else Finite (signbit x \<and> signbit y) 0)"

text \<open>
  \<^verbatim>\<open>time.Duration\<close> is an int64 count of nanoseconds. \<^verbatim>\<open>Duration.Seconds\<close> of the
  standard library is \<^verbatim>\<open>sec := d / Second; nsec := d % Second;
  return float64(sec) + float64(nsec)/1e9\<close>, with Go's truncating integer division.
\<close>

definition tdiv :: "int \<Rightarrow> int \<Rightarrow> int" where
  "tdiv a b = sgn a * sgn b * (\<bar>a\<bar> div \<bar>b\<bar>)"

definition tmod :: "int \<Rightarrow> int \<Rightarrow> int" where
  "tmod a b = a - tdiv a b * b"

definition Seconds :: "64 word \<Rightarrow> f64" where
  "Seconds d =
     (let sec = tdiv (sint d) 1000000000;
          nsec = tmod (sint d) 1000000000
      in fadd (f64_of_int sec) (fdiv (f64_of_int nsec) (f64_of_rat 1000000000)))"

text \<open>
  Two results are the same up to the sign of a zero: equal under Go's \<^verbatim>\<open>==\<close>, or
  both NaN.
\<close>

definition same_f64 :: "f64 \<Rightarrow> f64 \<Rightarrow> bool" where
  "same_f64 x y = (is_nan x \<and> is_nan y \<or> f64_eq x y)"

section \<open>The range clamp\<close>

record limit =
  lower :: f64
  upper :: f64

definition newLimit :: "f64 \<Rightarrow> f64 \<Rightarrow> limit" where
  "newLimit lo hi = \<lparr> lower = lo, upper = hi \<rparr>"

text \<open>\<^verbatim>\<open>limit.apply\<close>: \<^verbatim>\<open>min(max(l.lower, value), l.upper)\<close>.\<close>

definition limit_apply :: "limit \<Rightarrow> f64 \<Rightarrow> f64" where
  "limit_apply l v = fmin (fmax (lower l) v) (upper l)"

text \<open>A value lies within a limit when both comparisons of Go hold.\<close>

definition in_limit :: "limit \<Rightarrow> f64 \<Rightarrow> bool" where
  "in_limit l v = (f64_le (lower l) v \<and> f64_le v (upper l))"

section \<open>The telemetry boundary\<close>

text \<open>
  The Prometheus client library is outside the repository. A collector is known here by
  its Go type and its name; a registerer is a state with a \<^verbatim>\<open>Register\<close> method
  that returns an error or nil.
\<close>

datatype gotype = CounterVecT | GaugeVecT | OtherT string

datatype collector = Collector gotype string "string list"

fun typeOf :: "collector \<Rightarrow> gotype" where
  "typeOf (Collector ty name lbls) = ty"

text \<open>
  The errors: the registry's \<^verbatim>\<open>AlreadyRegisteredError\<close> with its existing and its new
  collector, any other error by its message, the error that \<^verbatim>\<open>register\<close> makes with
  \<^verbatim>\<open>fmt.Errorf\<close> from the type found and the type wanted, and an error wrapping
  another.
\<close>

datatype error =
    AlreadyRegisteredError collector collector
  | ErrorString string
  | TypeMismatch gotype gotype
  | Wrap string error

type_synonym 'r Registerer = "'r \<Rightarrow> collector \<Rightarrow> error option \<times> 'r"

text \<open>
  \<^verbatim>\<open>errors.As(err, &are)\<close> for an \<^verbatim>\<open>AlreadyRegisteredError\<close> target: the first
  error of that type in the chain of wrapped errors, as the pair of its existing and its
  new collector.
\<close>

fun errors_As :: "error \<Rightarrow> (collector \<times> collector) option" where
  "errors_As (AlreadyRegisteredError existing new) = Some (existing, new)"
| "errors_As (Wrap msg err) = errors_As err"
| "errors_As (ErrorString msg) = None"
| "errors_As (TypeMismatch have want) = None"

definition nameLabel :: string where
  "nameLabel = ''name''"

definition labels :: "string list" where
  "labels = [nameLabel]"

definition NewCounterVec :: "string \<Rightarrow> string list \<Rightarrow> collector" where
  "NewCounterVec name lbls = Collector CounterVecT name lbls"

definition NewGaugeVec :: "string \<Rightarrow> string list \<Rightarrow> collector" where
  "NewGaugeVec name lbls = Collector GaugeVecT name lbls"

text \<open>
  The struct \<^verbatim>\<open>metrics\<close>; its field \<^verbatim>\<open>labels\<close> is \<open>metrics_labels\<close> here, apart
  from the package variable \<^verbatim>\<open>labels\<close> above.
\<close>

record metrics =
  updatesTotal :: collector
  target :: collector
  current :: collector
  controlSignal :: collector
  metrics_labels :: "string \<rightharpoonup> string"

text \<open>
  \<^verbatim>\<open>register[C]\<close>: the type parameter \<open>C\<close> is the Go type of the collector passed.
  The type assertion \<^verbatim>\<open>are.ExistingCollector.(C)\<close> succeeds when the existing
  collector has that type; otherwise the helper fails with an error of its own.
\<close>

definition register :: "'r Registerer \<Rightarrow> 'r \<Rightarrow> collector \<Rightarrow> (error + collector) \<times> 'r" where
  "register Register reg c =
     (case Register reg c of
        (Some err, reg') \<Rightarrow>
          (case errors_As err of
             Some (existing, new) \<Rightarrow>
               (if typeOf existing \<noteq> typeOf c
                then (Inl (TypeMismatch (typeOf existing) (typeOf c)), reg')
                else (Inr existing, reg'))
           | None \<Rightarrow> (Inl err, reg'))
      | (None, reg') \<Rightarrow> (Inr c, reg'))"

definition newMetrics :: "string \<Rightarrow> 'r Registerer \<Rightarrow> 'r \<Rightarrow> (error + metrics) \<times> 'r" where
  "newMetrics name Register reg =
     (case register Register reg (NewCounterVec ''pid_updates_total'' labels) of
        (Inl err, reg1) \<Rightarrow> (Inl err, reg1)
      | (Inr m_updatesTotal, reg1) \<Rightarrow>
     (case register Register reg1 (NewGaugeVec ''pid_target'' labels) of
        (Inl err, reg2) \<Rightarrow> (Inl err, reg2)
      | (Inr m_target, reg2) \<Rightarrow>
     (case register Register reg2 (NewGaugeVec ''pid_current'' labels) of
        (Inl err, reg3) \<Rightarrow> (Inl err, reg3)
      | (Inr m_current, reg3) \<Rightarrow>
     (case register Register reg3 (NewGaugeVec ''pid_control_signal'' labels) of
        (Inl err, reg4) \<Rightarrow> (Inl err, reg4)
      | (Inr m_controlSignal, reg4) \<Rightarrow>
          (Inr \<lparr> updatesTotal = m_updatesTotal, target = m_target, current = m_current,
                 controlSignal = m_controlSignal,
                 metrics_labels = [nameLabel \<mapsto> name] \<rparr>, reg4)))))"

text \<open>
  The other metrics file of the sources has no \<^verbatim>\<open>register\<close> helper: its
  \<^verbatim>\<open>newMetrics\<close> builds the four collectors and registers them in a loop, returning
  the first error of \<^verbatim>\<open>Register\<close> whatever it is.
\<close>

fun registerAll :: "'r Registerer \<Rightarrow> 'r \<Rightarrow> collector list \<Rightarrow> error option \<times> 'r" where
  "registerAll Register reg [] = (None, reg)"
| "registerAll Register reg (c # cs) =
     (case Register reg c of
        (Some err, reg') \<Rightarrow> (Some err, reg')
      | (None, reg') \<Rightarrow> registerAll Register reg' cs)"

definition newMetrics_loop :: "string \<Rightarrow> 'r Registerer \<Rightarrow> 'r \<Rightarrow> (error + metrics) \<times> 'r" where
  "newMetrics_loop name Register reg =
     (let m = \<lparr> updatesTotal = NewCounterVec ''pid_updates_total'' labels,
                 target = NewGaugeVec ''pid_target'' labels,
                 current = NewGaugeVec ''pid_current'' labels,
                 controlSignal = NewGaugeVec ''pid_control_signal'' labels,
                 metrics_labels = [nameLabel \<mapsto> name] \<rparr>
      in case registerAll Register reg [updatesTotal m, target m, current m, controlSignal m] of
           (Some err, reg') \<Rightarrow> (Inl err, reg')
         | (None, reg') \<Rightarrow> (Inr m, reg'))"

text \<open>
  A registry for the examples: the list of the collectors registered so far. Registering
  a collector without a name fails; registering one whose name is taken fails with an
  \<^verbatim>\<open>AlreadyRegisteredError\<close> that carries the collector found.
\<close>

fun collectorName :: "collector \<Rightarrow> string" where
  "collectorName (Collector ty name lbls) = name"

definition listRegister :: "(collector list) Registerer" where
  "listRegister reg c =
     (if collectorName c = [] then (Some (ErrorString ''descriptor has no name''), reg)
      else case find (\<lambda>e. collectorName e = collectorName c) reg of
             Some existing \<Rightarrow> (Some (AlreadyRegisteredError existing c), reg)
           | None \<Rightarrow> (None, reg @ [c]))"

section \<open>The controller\<close>

record Controller =
  proportionalGain :: f64
  integralGain :: f64
  derivativeGain :: f64
  prevControlError :: f64
  integral :: f64
  derivative :: f64
  outputLimit :: limit
  integralLimit :: limit
  lowPassFilterError :: f64
  lowPassFilterDerivative :: f64
  trapezoidalIntegral :: bool

record options =
  proportionalGain :: f64
  integralGain :: f64
  derivativeGain :: f64
  outputLimit :: limit
  trapezoidalIntegral :: bool
  lowPassFilterError :: f64
  lowPassFilterDerivative :: f64

text \<open>An option updates the options or fails; a failure leaves nothing to use.\<close>

type_synonym Option = "options \<Rightarrow> error + options"

definition WithStandardForm :: "f64 \<Rightarrow> f64 \<Rightarrow> f64 \<Rightarrow> Option" where
  "WithStandardForm proportionalGain' integralTimeConstant derivativeTimeConstant ops =
     Inr (ops\<lparr> proportionalGain := proportionalGain',
                integralGain := fdiv proportionalGain' integralTimeConstant,
                derivativeGain := fmul proportionalGain' derivativeTimeConstant,
                lowPassFilterDerivative := fdiv derivativeTimeConstant (f64_of_rat 8),
                lowPassFilterError := fdiv derivativeTimeConstant (f64_of_rat 64) \<rparr>)"

definition WithZieglerNicholsMethod :: "f64 \<Rightarrow> f64 \<Rightarrow> Option" where
  "WithZieglerNicholsMethod ultimateGain oscillationPeriod =
     WithStandardForm
       (fmul (f64_of_rat (6 / 10)) ultimateGain)
       (fdiv oscillationPeriod (f64_of_rat 2))
       (fdiv oscillationPeriod (f64_of_rat 8))"

definition WithProportionalGain :: "f64 \<Rightarrow> Option" where
  "WithProportionalGain proportionalGain' ops =
     Inr (ops\<lparr> proportionalGain := proportionalGain' \<rparr>)"

definition WithIntegralGain :: "f64 \<Rightarrow> Option" where
  "WithIntegralGain integralGain' ops = Inr (ops\<lparr> integralGain := integralGain' \<rparr>)"

definition WithDerivativeGain :: "f64 \<Rightarrow> Option" where
  "WithDerivativeGain derivativeGain' ops =
     Inr (ops\<lparr> derivativeGain := derivativeGain' \<rparr>)"

definition WithLowPassFilterError :: "f64 \<Rightarrow> Option" where
  "WithLowPassFilterError lowPassFilterError' ops =
     Inr (ops\<lparr> lowPassFilterError := lowPassFilterError' \<rparr>)"

definition WithOutputLimit :: "f64 \<Rightarrow> f64 \<Rightarrow> Option" where
  "WithOutputLimit lo hi ops = Inr (ops\<lparr> outputLimit := newLimit lo hi \<rparr>)"

definition WithTrapezoidalIntegral :: "bool \<Rightarrow> Option" where
  "WithTrapezoidalIntegral enabled ops = Inr (ops\<lparr> trapezoidalIntegral := enabled \<rparr>)"

fun WithOptions :: "Option list \<Rightarrow> Option" where
  "WithOptions [] ops = Inr ops"
| "WithOptions (opt # opts) ops =
     (case opt ops of
        Inl err \<Rightarrow> Inl err
      | Inr ops' \<Rightarrow> WithOptions opts ops')"

text \<open>The options \<^verbatim>\<open>New\<close> starts from; the fields it does not name are Go's zero values.\<close>

definition defaultOptions :: options where
  "defaultOptions =
     \<lparr> proportionalGain = f64_of_rat 1,
       integralGain = f64_of_rat 0,
       derivativeGain = f64_of_rat 0,
       outputLimit = newLimit (Infinity True) (Infinity False),
       trapezoidalIntegral = False,
       lowPassFilterError = Finite False 0,
       lowPassFilterDerivative = Finite False 0 \<rparr>"

definition New :: "Option list \<Rightarrow> error + Controller" where
  "New opts =
     (case WithOptions opts defaultOptions of
        Inl err \<Rightarrow> Inl err
      | Inr cfg \<Rightarrow>
          (let integralLimit0 = newLimit (Infinity True) (Infinity False);
               integralLimit1 =
                 (if f64_gt (options.integralGain cfg) (f64_of_rat 0)
                  then newLimit
                         (fdiv (lower (options.outputLimit cfg)) (options.integralGain cfg))
                         (fdiv (upper (options.outputLimit cfg)) (options.integralGain cfg))
                  else integralLimit0)
           in Inr \<lparr> Controller.proportionalGain = options.proportionalGain cfg,
                    Controller.integralGain = options.integralGain cfg,
                    Controller.derivativeGain = options.derivativeGain cfg,
                    prevControlError = Finite False 0,
                    integral = Finite False 0,
                    derivative = Finite False 0,
                    Controller.outputLimit = options.outputLimit cfg,
                    integralLimit = integralLimit1,
                    Controller.lowPassFilterError = options.lowPassFilterError cfg,
                    Controller.lowPassFilterDerivative = options.lowPassFilterDerivative cfg,
                    Controller.trapezoidalIntegral = options.trapezoidalIntegral cfg \<rparr>))"

definition updateIntegral :: "Controller \<Rightarrow> f64 \<Rightarrow> f64 \<Rightarrow> f64" where
  "updateIntegral c controlError step =
     (if Controller.trapezoidalIntegral c
      then fadd (integral c)
             (fdiv (fmul step (fadd controlError (prevControlError c))) (f64_of_rat 2))
      else fadd (integral c) (fmul controlError step))"

definition updateDerivative :: "Controller \<Rightarrow> f64 \<Rightarrow> f64 \<Rightarrow> f64" where
  "updateDerivative c controlError step =
     (let derivative0 = fdiv (fsub controlError (prevControlError c)) step
      in if f64_ne (Controller.lowPassFilterDerivative c) (f64_of_rat 0)
         then fdiv
                (fadd (fsub controlError (prevControlError c))
                      (fmul (Controller.lowPassFilterDerivative c) (derivative c)))
                (fadd step (Controller.lowPassFilterDerivative c))
         else derivative0)"

text \<open>The error signal of an update: the difference, low-pass filtered if the filter is on.\<close>

definition filteredError :: "Controller \<Rightarrow> f64 \<Rightarrow> f64 \<Rightarrow> f64 \<Rightarrow> f64" where
  "filteredError c tgt cur step =
     (let controlError = fsub tgt cur
      in if f64_ne (Controller.lowPassFilterError c) (f64_of_rat 0)
         then fdiv
                (fadd (fmul controlError step)
                      (fmul (prevControlError c) (Controller.lowPassFilterError c)))
                (fadd (Controller.lowPassFilterError c) step)
         else controlError)"

text \<open>The weighted sum of the three terms, before the output clamp.\<close>

definition weightedSum :: "Controller \<Rightarrow> f64 \<Rightarrow> f64" where
  "weightedSum c controlError =
     fadd (fadd (fmul (Controller.proportionalGain c) controlError)
                (fmul (Controller.integralGain c) (integral c)))
          (fmul (Controller.derivativeGain c) (derivative c))"

text \<open>
  \<^verbatim>\<open>Update\<close> returns the control signal and the controller as the call leaves it.
  The three assignments are in the order of the source: the derivative is computed from
  the previous error and the previous derivative, with the integral already stored.
\<close>

definition Update :: "Controller \<Rightarrow> f64 \<Rightarrow> f64 \<Rightarrow> 64 word \<Rightarrow> f64 \<times> Controller" where
  "Update c tgt cur delta =
     (let step = Seconds delta;
          controlError = filteredError c tgt cur step;
          c1 = c\<lparr> integral := limit_apply (integralLimit c) (updateIntegral c controlError step) \<rparr>;
          c2 = c1\<lparr> derivative := updateDerivative c1 controlError step \<rparr>;
          c3 = c2\<lparr> prevControlError := controlError \<rparr>;
          output = weightedSum c3 controlError
      in (limit_apply (Controller.outputLimit c3) output, c3))"

text \<open>A call history: the controller after a list of calls, the results dropped.\<close>

fun run :: "Controller \<Rightarrow> (f64 \<times> f64 \<times> 64 word) list \<Rightarrow> Controller" where
  "run c [] = c"
| "run c ((tgt, cur, delta) # calls) = run (snd (Update c tgt cur delta)) calls"

text \<open>The results of the calls of a history, in order.\<close>

fun outputs :: "Controller \<Rightarrow> (f64 \<times> f64 \<times> 64 word) list \<Rightarrow> f64 list" where
  "outputs c [] = []"
| "outputs c ((tgt, cur, delta) # calls) =
     fst (Update c tgt cur delta) # outputs (snd (Update c tgt cur delta)) calls"

section \<open>Values for the examples\<close>

text \<open>\<^verbatim>\<open>math.MaxFloat64\<close> and \<^verbatim>\<open>time.Second\<close>.\<close>

definition MaxFloat64 :: f64 where
  "MaxFloat64 = Finite False (2 ^ 1024 - 2 ^ 971)"

definition Second :: "64 word" where
  "Second = 1000000000"

text \<open>The controller that \<^verbatim>\<open>New()\<close> returns without options.\<close>

definition controller0 :: Controller where
  "controller0 =
     \<lparr> Controller.proportionalGain = Finite False 1,
       Controller.integralGain = Finite False 0,
       Controller.derivativeGain = Finite False 0,
       prevControlError = Finite False 0,
       integral = Finite False 0,
       derivative = Finite False 0,
       Controller.outputLimit = \<lparr> lower = Infinity True, upper = Infinity False \<rparr>,
       integralLimit = \<lparr> lower = Infinity True, upper = Infinity False \<rparr>,
       Controller.lowPassFilterError = Finite False 0,
       Controller.lowPassFilterDerivative = Finite False 0,
       Controller.trapezoidalIntegral = False \<rparr>"

text \<open>The controller of the test \<^verbatim>\<open>output-limit-is-enforced\<close>: gains 1.5, 0, 0, output in [-3, 3].\<close>

definition controllerP :: Controller where
  "controllerP =
     controller0\<lparr> Controller.proportionalGain := Finite False (3 / 2),
                    Controller.outputLimit := \<lparr> lower = Finite True 3, upper = Finite False 3 \<rparr> \<rparr>"

text \<open>Integral gain 1.5 and output in [-3, 3]: the accumulator is kept in [-2, 2].\<close>

definition controllerLI :: Controller where
  "controllerLI =
     controller0\<lparr> Controller.integralGain := Finite False (3 / 2),
                    Controller.outputLimit := \<lparr> lower = Finite True 3, upper = Finite False 3 \<rparr>,
                    integralLimit := \<lparr> lower = Finite True 2, upper = Finite False 2 \<rparr> \<rparr>"

text \<open>The controller of \<^verbatim>\<open>ExampleNew\<close>: standard form with Kp = 2, Ti = 1, Td = 0.25.\<close>

definition controllerSF :: Controller where
  "controllerSF =
     controller0\<lparr> Controller.proportionalGain := Finite False 2,
                    Controller.integralGain := Finite False 2,
                    Controller.derivativeGain := Finite False (1 / 2),
                    Controller.lowPassFilterError := Finite False (1 / 256),
                    Controller.lowPassFilterDerivative := Finite False (1 / 32) \<rparr>"

text \<open>The four collectors of the package, and the metrics built from them.\<close>

definition pidCollectors :: "collector list" where
  "pidCollectors =
     [Collector CounterVecT ''pid_updates_total'' [''name''],
      Collector GaugeVecT ''pid_target'' [''name''],
      Collector GaugeVecT ''pid_current'' [''name''],
      Collector GaugeVecT ''pid_control_signal'' [''name'']]"

definition pidMetrics :: "string \<Rightarrow> metrics" where
  "pidMetrics name =
     \<lparr> updatesTotal = Collector CounterVecT ''pid_updates_total'' [''name''],
       target = Collector GaugeVecT ''pid_target'' [''name''],
       current = Collector GaugeVecT ''pid_current'' [''name''],
       controlSignal = Collector GaugeVecT ''pid_control_signal'' [''name''],
       metrics_labels = [''name'' \<mapsto> name] \<rparr>"

text \<open>
  Integral gain 25 and output in [-7, 7]: the accumulator is kept within the float64
  nearest to 7 / 25 and its negation.
\<close>

definition controllerAW :: Controller where
  "controllerAW =
     controller0\<lparr> Controller.integralGain := Finite False 25,
                    Controller.outputLimit := \<lparr> lower = Finite True 7, upper = Finite False 7 \<rparr>,
                    integralLimit :=
                      \<lparr> lower = Finite True (1261007895663739 / 4503599627370496),
                        upper = Finite False (1261007895663739 / 4503599627370496) \<rparr> \<rparr>"

text \<open>The controller without gains for the integral and the derivative, the error filter on.\<close>

definition controllerF :: Controller where
  "controllerF = controller0\<lparr> Controller.lowPassFilterError := Finite False 1 \<rparr>"

text \<open>
  The controller of \<^verbatim>\<open>ExampleController_Update\<close>: standard form with Kp = 1.5, Ti = 1
  and Td = 0.2 (the float64 nearest to it), trapezoidal integration, output in [-1, 1].
\<close>

definition controllerEx :: Controller where
  "controllerEx =
     \<lparr> Controller.proportionalGain = Finite False (3 / 2),
       Controller.integralGain = Finite False (3 / 2),
       Controller.derivativeGain = Finite False (1351079888211149 / 4503599627370496),
       prevControlError = Finite False 0,
       integral = Finite False 0,
       derivative = Finite False 0,
       Controller.outputLimit = \<lparr> lower = Finite True 1, upper = Finite False 1 \<rparr>,
       integralLimit = \<lparr> lower = Finite True (6004799503160661 / 9007199254740992),
                         upper = Finite False (6004799503160661 / 9007199254740992) \<rparr>,
       Controller.lowPassFilterError = Finite False (3602879701896397 / 1152921504606846976),
       Controller.lowPassFilterDerivative = Finite False (3602879701896397 / 144115188075855872),
       Controller.trapezoidalIntegral = True \<rparr>"


text \<open>
  Controllers at the edges of the configuration: inverted output bounds (3, -3) with
  integral gain 1; the anti-windup controller with trapezoidal integration; an infinite
  integral gain; and a negative proportional gain.
\<close>

definition controllerInv :: Controller where
  "controllerInv =
     controller0\<lparr> Controller.integralGain := Finite False 1,
                    Controller.outputLimit := \<lparr> lower = Finite False 3, upper = Finite True 3 \<rparr>,
                    integralLimit := \<lparr> lower = Finite False 3, upper = Finite True 3 \<rparr> \<rparr>"

definition controllerAWT :: Controller where
  "controllerAWT = controllerAW\<lparr> Controller.trapezoidalIntegral := True \<rparr>"

definition controllerInfGain :: Controller where
  "controllerInfGain =
     controller0\<lparr> Controller.integralGain := Infinity False,
                    Controller.outputLimit := \<lparr> lower = Finite True 7, upper = Finite False 7 \<rparr>,
                    integralLimit := \<lparr> lower = Finite True 0, upper = Finite False 0 \<rparr> \<rparr>"

definition controllerNeg :: Controller where
  "controllerNeg = controller0\<lparr> Controller.proportionalGain := Finite True 1 \<rparr>"

section \<open>Rounding to the binary64 grid\<close>

lemma rhe_of_int: "rhe (of_int n) = n"
  by (simp add: rhe_def)

lemma rhe_bounds: "\<lfloor>x\<rfloor> \<le> rhe x" "rhe x \<le> \<lfloor>x\<rfloor> + 1"
  by (simp_all add: rhe_def Let_def)

lemma rhe_mono: assumes "x \<le> y" shows "rhe x \<le> rhe y"
proof (cases "\<lfloor>x\<rfloor> = \<lfloor>y\<rfloor>")
  case True
  with assms show ?thesis by (auto simp: rhe_def Let_def)
next
  case False
  with assms have "\<lfloor>x\<rfloor> < \<lfloor>y\<rfloor>" using floor_mono[OF assms] by linarith
  then have "rhe x \<le> \<lfloor>y\<rfloor>" using rhe_bounds(2)[of x] by linarith
  then show ?thesis using rhe_bounds(1)[of y] by linarith
qed

lemma powi_nat: "0 \<le> e \<Longrightarrow> (2::rat) powi e = of_int (2 ^ nat e)"
  by (simp add: power_int_def)

lemma powi_neg_nat: "0 \<le> e \<Longrightarrow> (2::rat) powi (- e) = 1 / of_int (2 ^ nat e)"
  by (simp add: power_int_def field_simps)

lemma flog2_bounds:
  assumes "0 < m"
  shows "2 powi flog2 m \<le> m" and "m < 2 powi (flog2 m + 1)"
proof -
  have "2 powi flog2 m \<le> m \<and> m < 2 powi (flog2 m + 1)"
  proof (cases "1 \<le> m")
    case True
    define n where "n = \<lfloor>m\<rfloor>"
    have n: "1 \<le> n" using True by (simp add: n_def le_floor_iff)
    then have b: "2 ^ nat (bitlen n - 1) \<le> n" "n < 2 ^ nat (bitlen n)"
      using bitlen_bounds[of n] by auto
    have b1: "1 \<le> bitlen n" using n bitlen_eq_zero_iff[of n] bitlen_nonneg[of n] by linarith
    have e: "flog2 m = bitlen n - 1" using True by (simp add: flog2_def n_def)
    have "(2::rat) powi (bitlen n - 1) = of_int (2 ^ nat (bitlen n - 1))"
      using b1 by (intro powi_nat) simp
    also have "\<dots> \<le> of_int n" using b(1) by (simp only: of_int_le_iff)
    also have "\<dots> \<le> m" by (simp add: n_def)
    finally have lo: "2 powi flog2 m \<le> m" by (simp add: e)
    have "m < of_int (n + 1)" unfolding n_def by linarith
    also have "\<dots> \<le> of_int (2 ^ nat (bitlen n))" using b(2) by (simp only: of_int_le_iff)
    also have "\<dots> = (2::rat) powi (bitlen n)" using b1 by (subst powi_nat) simp_all
    finally have "m < 2 powi (flog2 m + 1)" by (simp add: e)
    with lo show ?thesis by simp
  next
    case False
    then have m1: "m < 1" by simp
    define c where "c = \<lceil>1 / m\<rceil>"
    define k where "k = c - 1"
    have inv: "1 < 1 / m" using assms m1 by (simp add: field_simps)
    have c2: "2 \<le> c" unfolding c_def using inv by (simp add: le_ceiling_iff)
    have k1: "1 \<le> k" using c2 by (simp add: k_def)
    then have b: "2 ^ nat (bitlen k - 1) \<le> k" "k < 2 ^ nat (bitlen k)"
      using bitlen_bounds[of k] by auto
    have b1: "1 \<le> bitlen k" using k1 bitlen_eq_zero_iff[of k] bitlen_nonneg[of k] by linarith
    have e: "flog2 m = - bitlen k" using False by (simp add: flog2_def c_def k_def)
    have "1 / m \<le> of_int c" by (simp add: c_def)
    also have "\<dots> \<le> of_int (2 ^ nat (bitlen k))" using b(2) by (simp only: of_int_le_iff) (simp add: k_def)
    finally have "1 / m \<le> of_int (2 ^ nat (bitlen k))" .
    then have "1 / of_int (2 ^ nat (bitlen k)) \<le> m"
      using assms by (simp add: field_simps)
    then have lo: "2 powi flog2 m \<le> m"
      using b1 by (simp add: e powi_neg_nat)
    have "of_int k < 1 / m" unfolding k_def c_def by (simp add: ceiling_correct)
    then have "of_int (2 ^ nat (bitlen k - 1)) < 1 / m"
      using b(1) by (meson le_less_trans of_int_le_iff)
    then have "m < 1 / of_int (2 ^ nat (bitlen k - 1))"
      using assms by (simp add: field_simps)
    also have "\<dots> = (2::rat) powi (- (bitlen k - 1))"
      using b1 by (subst powi_neg_nat) simp_all
    finally have "m < 2 powi (flog2 m + 1)" by (simp add: e)
    with lo show ?thesis by simp
  qed
  then show "2 powi flog2 m \<le> m" and "m < 2 powi (flog2 m + 1)" by simp_all
qed

lemma powi2_mono: "a \<le> b \<Longrightarrow> (2::rat) powi a \<le> 2 powi b"
  by (rule power_int_increasing) simp_all

lemma powi2_less_imp: "(2::rat) powi a < 2 powi b \<Longrightarrow> a < b"
  using powi2_mono[of b a] by (cases "a < b") simp_all

lemma flog2_unique:
  assumes "2 powi e \<le> m" "m < 2 powi (e + 1)"
  shows "flog2 m = e"
proof -
  have m: "0 < m" using assms(1) by (meson less_le_trans zero_less_numeral zero_less_power_int)
  note B = flog2_bounds[OF m]
  have "2 powi e < (2::rat) powi (flog2 m + 1)" using assms(1) B(2) by linarith
  then have 1: "e < flog2 m + 1" by (rule powi2_less_imp)
  have "2 powi flog2 m < (2::rat) powi (e + 1)" using assms(2) B(1) by linarith
  then have 2: "flog2 m < e + 1" by (rule powi2_less_imp)
  from 1 2 show ?thesis by simp
qed

lemma flog2_mono:
  assumes "0 < a" "a \<le> b"
  shows "flog2 a \<le> flog2 b"
proof -
  have b: "0 < b" using assms by simp
  have "2 powi flog2 a < (2::rat) powi (flog2 b + 1)"
    using flog2_bounds(1)[OF assms(1)] flog2_bounds(2)[OF b] assms(2) by linarith
  then have "flog2 a < flog2 b + 1" by (rule powi2_less_imp)
  then show ?thesis by simp
qed


lemma rhe_le: "x \<le> of_int n \<Longrightarrow> rhe x \<le> n"
  using rhe_mono[of x "of_int n"] by (simp add: rhe_of_int)

lemma rhe_ge: "of_int n \<le> x \<Longrightarrow> n \<le> rhe x"
  using rhe_mono[of "of_int n" x] by (simp add: rhe_of_int)

lemma powi2_pos: "0 < (2::rat) powi k"
  by simp

lemma powi2_add: "(2::rat) powi (a + b) = 2 powi a * 2 powi b"
  by (simp add: power_int_add)

lemma powi2_53: "(2::rat) powi (k + 53) = of_int (2 ^ 53) * 2 powi k"
  by (simp add: powi2_add)

lemma powi2_52: "(2::rat) powi (k + 52) = of_int (2 ^ 52) * 2 powi k"
  by (simp add: powi2_add)

lemma round_mag_pos_eq:
  "0 < m \<Longrightarrow> round_mag m = of_int (rhe (m / 2 powi qexp m)) * 2 powi qexp m"
  by (simp add: round_mag_def Let_def)

lemma round_mag_nonneg: assumes "0 \<le> m" shows "0 \<le> round_mag m"
proof (cases "m = 0")
  case True then show ?thesis by (simp add: round_mag_def)
next
  case False
  with assms have m: "0 < m" by simp
  have "of_int 0 \<le> m / 2 powi qexp m" using m by simp
  then have "0 \<le> rhe (m / 2 powi qexp m)" by (rule rhe_ge)
  then show ?thesis using m by (simp add: round_mag_pos_eq)
qed

lemma qexp_ge: "- 1074 \<le> qexp m"
  by (simp add: qexp_def)

lemma round_mag_upper:
  assumes "0 < m"
  shows "rhe (m / 2 powi qexp m) \<le> 2 ^ 53"
proof -
  have "m < 2 powi (flog2 m + 1)" using flog2_bounds(2)[OF assms] .
  also have "\<dots> \<le> 2 powi (qexp m + 53)"
    by (rule powi2_mono) (simp add: qexp_def)
  finally have "m \<le> of_int (2 ^ 53) * 2 powi qexp m" by (simp add: powi2_53)
  then have "m / 2 powi qexp m \<le> of_int (2 ^ 53)"
    by (simp add: field_simps)
  then show ?thesis by (rule rhe_le)
qed

lemma round_mag_lower:
  assumes "0 < m" "- 1022 \<le> flog2 m"
  shows "2 ^ 52 \<le> rhe (m / 2 powi qexp m)"
proof -
  have q: "qexp m + 52 = flog2 m" using assms(2) by (simp add: qexp_def)
  have "of_int (2 ^ 52) * 2 powi qexp m = (2::rat) powi flog2 m"
    using powi2_52[of "qexp m"] by (simp add: q)
  also have "\<dots> \<le> m" using flog2_bounds(1)[OF assms(1)] .
  finally have "of_int (2 ^ 52) \<le> m / 2 powi qexp m"
    by (simp add: field_simps)
  then show ?thesis by (rule rhe_ge)
qed

lemma round_mag_sub_upper:
  assumes "0 < m" "flog2 m < - 1022"
  shows "rhe (m / 2 powi qexp m) \<le> 2 ^ 52"
proof -
  have q: "qexp m = - 1074" using assms(2) by (simp add: qexp_def)
  have "m < 2 powi (flog2 m + 1)" using flog2_bounds(2)[OF assms(1)] .
  also have "\<dots> \<le> 2 powi (qexp m + 52)"
    by (rule powi2_mono) (use assms(2) in \<open>simp add: q\<close>)
  finally have "m \<le> of_int (2 ^ 52) * 2 powi qexp m" by (simp add: powi2_52)
  then have "m / 2 powi qexp m \<le> of_int (2 ^ 52)"
    by (simp add: field_simps)
  then show ?thesis by (rule rhe_le)
qed

text \<open>Values on the binary64 grid are fixed points of rounding.\<close>

lemma round_mag_grid:
  assumes n: "0 \<le> n" "n \<le> 2 ^ 53" and k: "- 1074 \<le> k"
    and norm: "2 ^ 52 \<le> n \<or> k = - 1074"
  shows "round_mag (of_int n * 2 powi k) = of_int n * 2 powi k"
proof (cases "n = 0")
  case True then show ?thesis by (simp add: round_mag_def)
next
  case False
  define v :: rat where "v = of_int n * 2 powi k"
  have npos: "0 < n" using n False by simp
  have vpos: "0 < v" using npos by (simp add: v_def)
  have qk: "qexp v = k \<and> rhe (v / 2 powi k) = n \<or> (n = 2 ^ 53 \<and> qexp v = k + 1)"
  proof (cases "n = 2 ^ 53")
    case True
    have "v = 2 powi (k + 53)" by (simp add: v_def True powi2_53)
    then have "flog2 v = k + 53"
      by (intro flog2_unique) (simp_all add: powi2_add)
    then show ?thesis using k True by (simp add: qexp_def)
  next
    case n53: False
    have nlt: "n < 2 ^ 53" using n n53 by simp
    have r: "rhe (v / 2 powi k) = n" by (simp add: v_def rhe_of_int)
    show ?thesis
    proof (cases "2 ^ 52 \<le> n")
      case True
      have "of_int (2 ^ 52) * 2 powi k \<le> v"
        unfolding v_def using True by (intro mult_right_mono) (simp_all only: of_int_le_iff powi2_pos less_imp_le)
      then have lo: "2 powi (k + 52) \<le> v" by (simp add: powi2_52)
      have "v < of_int (2 ^ 53) * 2 powi k"
        unfolding v_def using nlt by (intro mult_strict_right_mono) (simp_all only: of_int_less_iff powi2_pos)
      then have hi: "v < 2 powi (k + 52 + 1)" using powi2_53[of k] by (simp add: add.commute)
      have "flog2 v = k + 52" using lo hi by (rule flog2_unique)
      then have "qexp v = k" using k by (simp add: qexp_def)
      with r show ?thesis by simp
    next
      case False
      then have k74: "k = - 1074" and n52: "n < 2 ^ 52" using norm by auto
      have "v < of_int (2 ^ 52) * 2 powi k"
        unfolding v_def using n52 by (intro mult_strict_right_mono) (simp_all only: of_int_less_iff powi2_pos)
      then have "v < 2 powi (- 1022)" using powi2_52[of k] by (simp add: k74)
      then have "2 powi flog2 v < (2::rat) powi (- 1022)"
        using flog2_bounds(1)[OF vpos] by linarith
      then have "flog2 v < - 1022" by (rule powi2_less_imp)
      then have "qexp v = k" by (simp add: qexp_def k74)
      with r show ?thesis by simp
    qed
  qed
  have "round_mag v = v"
  proof -
    from qk show ?thesis
    proof
      assume "qexp v = k \<and> rhe (v / 2 powi k) = n"
      then show ?thesis using vpos by (simp add: round_mag_pos_eq) (simp add: v_def)
    next
      assume a: "n = 2 ^ 53 \<and> qexp v = k + 1"
      have v2: "v = of_int (2 ^ 52) * 2 powi (k + 1)"
        using a by (simp add: v_def powi2_add)
      have "rhe (v / 2 powi (k + 1)) = 2 ^ 52"
        unfolding v2 using rhe_of_int[of "2 ^ 52"] by simp
      then show ?thesis using vpos a by (simp add: round_mag_pos_eq) (simp add: v2)
    qed
  qed
  then show ?thesis by (simp add: v_def)
qed

lemma round_mag_idem:
  assumes "0 \<le> m"
  shows "round_mag (round_mag m) = round_mag m"
proof (cases "m = 0")
  case True then show ?thesis by (simp add: round_mag_def)
next
  case False
  with assms have m: "0 < m" by simp
  define n where "n = rhe (m / 2 powi qexp m)"
  have v: "round_mag m = of_int n * 2 powi qexp m"
    using m by (simp add: round_mag_pos_eq n_def)
  have n0: "0 \<le> n" unfolding n_def using m by (intro rhe_ge) simp
  have n1: "n \<le> 2 ^ 53" unfolding n_def using m by (rule round_mag_upper)
  have norm: "2 ^ 52 \<le> n \<or> qexp m = - 1074"
  proof (cases "- 1022 \<le> flog2 m")
    case True
    then show ?thesis unfolding n_def using round_mag_lower[OF m] by simp
  next
    case False
    then show ?thesis by (simp add: qexp_def)
  qed
  show ?thesis unfolding v using n0 n1 qexp_ge norm by (rule round_mag_grid)
qed

lemma round_mag_mono:
  assumes "0 \<le> a" "a \<le> b"
  shows "round_mag a \<le> round_mag b"
proof (cases "a = 0")
  case True
  then show ?thesis using round_mag_nonneg[of b] assms by (simp add: round_mag_def)
next
  case False
  with assms have a: "0 < a" and b: "0 < b" by simp_all
  have fl: "flog2 a \<le> flog2 b" using a assms(2) by (rule flog2_mono)
  then have qq: "qexp a \<le> qexp b" by (simp add: qexp_def)
  show ?thesis
  proof (cases "qexp a = qexp b")
    case True
    have "a / 2 powi qexp b \<le> b / 2 powi qexp b"
      using assms(2) by (simp add: divide_right_mono)
    then have "rhe (a / 2 powi qexp b) \<le> rhe (b / 2 powi qexp b)" by (rule rhe_mono)
    then have "rat_of_int (rhe (a / 2 powi qexp b)) * 2 powi qexp b
        \<le> of_int (rhe (b / 2 powi qexp b)) * 2 powi qexp b"
      by (intro mult_right_mono) simp_all
    then show ?thesis using a b True by (simp add: round_mag_pos_eq)
  next
    case False
    with qq have lt: "qexp a < qexp b" by simp
    then have fb: "- 1022 \<le> flog2 b" and qb: "qexp b + 52 = flog2 b"
      using qexp_ge[of a] by (auto simp: qexp_def)
    have "round_mag a \<le> of_int (2 ^ 53) * 2 powi qexp a"
      using round_mag_upper[OF a] a
      by (simp only: round_mag_pos_eq) (intro mult_right_mono, simp_all only: of_int_le_iff powi2_pos less_imp_le)
    also have "\<dots> = 2 powi (qexp a + 53)" by (simp add: powi2_53)
    also have "\<dots> \<le> 2 powi (qexp b + 52)" using lt by (intro powi2_mono) simp
    also have "\<dots> = of_int (2 ^ 52) * 2 powi qexp b" by (simp add: powi2_52)
    also have "\<dots> \<le> round_mag b"
      using round_mag_lower[OF b fb] b
      by (simp only: round_mag_pos_eq) (intro mult_right_mono, simp_all only: of_int_le_iff powi2_pos less_imp_le)
    finally show ?thesis .
  qed
qed

section \<open>Evaluating float64 arithmetic on numerals\<close>

lemma floor_rat_numeral_div:
  "\<lfloor>numeral a / numeral b :: rat\<rfloor> = numeral a div numeral b"
  by (metis floor_divide_of_int_eq of_int_numeral)

lemma ceiling_rat_numeral_div:
  "\<lceil>numeral a / numeral b :: rat\<rceil> = - ((- numeral a) div numeral b)"
  unfolding ceiling_def
  by (metis floor_divide_of_int_eq of_int_numeral of_int_minus minus_divide_left)

lemma bitlen_numeral_simps:
  "bitlen 1 = 1"
  "bitlen (numeral Num.One) = 1"
  "bitlen (numeral (Num.Bit0 n)) = bitlen (numeral n) + 1"
  "bitlen (numeral (Num.Bit1 n)) = bitlen (numeral n) + 1"
  by (subst compute_bitlen, simp)+

lemmas fmin_eval =
  fmin_def[of NaN y] fmin_def[of x NaN]
  fmin_def[of "Infinity s" "Infinity t"] fmin_def[of "Infinity s" "Finite t b"]
  fmin_def[of "Finite s a" "Infinity t"] fmin_def[of "Finite s a" "Finite t b"]
  for x y s t a b

lemmas fmax_eval =
  fmax_def[of NaN y] fmax_def[of x NaN]
  fmax_def[of "Infinity s" "Infinity t"] fmax_def[of "Infinity s" "Finite t b"]
  fmax_def[of "Finite s a" "Infinity t"] fmax_def[of "Finite s a" "Finite t b"]
  for x y s t a b

lemmas f64_eval =
  rhe_def flog2_def qexp_def round_mag_def round_sm_def Let_def
  bitlen_numeral_simps floor_rat_numeral_div ceiling_rat_numeral_div
  f64_of_rat_def f64_of_int_def fsub_def f64_gt_def f64_ne_def
  fmin_eval fmax_eval newLimit_def limit_apply_def in_limit_def

lemmas update_eval =
  Update_def filteredError_def updateIntegral_def updateDerivative_def weightedSum_def

lemmas option_eval =
  WithStandardForm_def WithZieglerNicholsMethod_def WithProportionalGain_def
  WithIntegralGain_def WithDerivativeGain_def WithLowPassFilterError_def WithOutputLimit_def
  WithTrapezoidalIntegral_def defaultOptions_def New_def

lemma Seconds_Second: "Seconds Second = Finite False 1"
  apply (simp add: Seconds_def Second_def tdiv_def tmod_def)
  apply (simp add: f64_eval)
  done

lemma is_f64_MaxFloat64: "is_f64 MaxFloat64"
  by (simp add: MaxFloat64_def f64_eval)

lemma New_nil: "New [] = Inr controller0"
  by (simp add: option_eval controller0_def f64_eval)

lemma New_controllerP:
  "New [WithProportionalGain (Finite False (3 / 2)), WithIntegralGain (Finite False 0),
        WithDerivativeGain (Finite False 0), WithOutputLimit (Finite True 3) (Finite False 3)]
   = Inr controllerP"
  by (simp add: option_eval controllerP_def controller0_def f64_eval)

text \<open>
  With the largest finite targets the error overflows: the accumulator and the derivative
  become infinite, their products with the zero gains are NaN, and so is the result.
\<close>

lemma Update_overflow:
  "Update controller0 MaxFloat64 (fneg MaxFloat64) Second =
     (NaN, controller0\<lparr> integral := Infinity False, derivative := Infinity False,
                         prevControlError := Infinity False \<rparr>)"
  by (simp add: controller0_def MaxFloat64_def update_eval Seconds_Second f64_eval)


lemma Update_controllerP:
  "Update controllerP (Finite False 10) (Finite False 7) Second =
     (Finite False 3, controllerP\<lparr> integral := Finite False 3, derivative := Finite False 3,
                                    prevControlError := Finite False 3 \<rparr>)"
  by (simp add: controllerP_def controller0_def update_eval Seconds_Second f64_eval)

text \<open>With the bounds inverted to (3, -3), both clamps return -3.\<close>

lemma New_controllerInv:
  "New [WithIntegralGain (Finite False 1), WithOutputLimit (Finite False 3) (Finite True 3)]
     = Inr controllerInv"
  by (simp add: option_eval controllerInv_def controller0_def f64_eval)

lemma Update_controllerInv:
  "Update controllerInv (Finite False 10) (Finite False 7) Second =
     (Finite True 3,
      controllerInv\<lparr> integral := Finite True 3, derivative := Finite False 3,
                      prevControlError := Finite False 3 \<rparr>)"
  by (simp add: controllerInv_def controller0_def update_eval Seconds_Second f64_eval
        cong: let_weak_cong)

section \<open>The clamp\<close>

lemma f64_le_not_nan: "f64_le x y \<Longrightarrow> \<not> is_nan x \<and> \<not> is_nan y"
  by (cases x; cases y) simp_all

lemma limit_apply_is_nan:
  assumes "f64_le (lower l) (upper l)"
  shows "is_nan (limit_apply l v) = is_nan v"
  using assms
  by (cases "lower l"; cases "upper l"; cases v)
     (simp_all add: limit_apply_def fmin_def fmax_def f64_ne_def)

lemma limit_apply_in_limit:
  assumes "f64_le (lower l) (upper l)" "\<not> is_nan v"
  shows "in_limit l (limit_apply l v)"
  using assms
  by (cases "lower l"; cases "upper l"; cases v)
     (auto simp add: in_limit_def limit_apply_def fmin_def fmax_def f64_ne_def split: if_splits)

text \<open>
  C10. A limit built with inverted bounds, \<open>upper < lower\<close>, sends every input that is not
  NaN to its upper bound: \<open>max(lower, v)\<close> is at least \<open>lower\<close>, which is above \<open>upper\<close>, so
  the minimum with \<open>upper\<close> is \<open>upper\<close>.
\<close>

theorem limit_apply_inverted:
  assumes "f64_lt hi lo" and "\<not> is_nan v"
  shows "limit_apply (newLimit lo hi) v = hi"
  using assms
  by (cases lo; cases hi; cases v)
     (auto simp add: newLimit_def limit_apply_def fmin_def fmax_def f64_ne_def split: if_splits)

theorem limit_apply_inverted_witness:
  "f64_lt (Finite True 3) (Finite False 3) \<and> \<not> is_nan (Finite False 10)
   \<and> limit_apply (newLimit (Finite False 3) (Finite True 3)) (Finite False 10) = Finite True 3"
  using limit_apply_inverted[of "Finite True 3" "Finite False 3" "Finite False 10"]
  by simp

section \<open>The update\<close>

lemma Update_fst:
  "fst (Update c tgt cur delta) =
     limit_apply (Controller.outputLimit c)
       (weightedSum (snd (Update c tgt cur delta))
                    (prevControlError (snd (Update c tgt cur delta))))"
  by (simp add: Update_def Let_def)

lemma Update_snd:
  "snd (Update c tgt cur delta) =
     c\<lparr> integral := limit_apply (integralLimit c)
                       (updateIntegral c (filteredError c tgt cur (Seconds delta)) (Seconds delta)),
        derivative := updateDerivative c (filteredError c tgt cur (Seconds delta)) (Seconds delta),
        prevControlError := filteredError c tgt cur (Seconds delta) \<rparr>"
  by (simp add: Update_def Let_def updateDerivative_def)

text \<open>
  C1, as the code has it. When the output limit has \<open>lower \<le> upper\<close>, the result of
  \<^verbatim>\<open>Update\<close> is NaN exactly when the weighted sum is NaN, and it lies within the output
  limit otherwise.
\<close>

theorem Update_output_in_limit:
  assumes "f64_le (lower (Controller.outputLimit c)) (upper (Controller.outputLimit c))"
  shows "(is_nan (fst (Update c tgt cur delta)) =
            is_nan (weightedSum (snd (Update c tgt cur delta))
                                (prevControlError (snd (Update c tgt cur delta)))))
         \<and> (is_nan (fst (Update c tgt cur delta))
            \<or> in_limit (Controller.outputLimit c) (fst (Update c tgt cur delta)))"
proof -
  let ?w = "weightedSum (snd (Update c tgt cur delta))
                        (prevControlError (snd (Update c tgt cur delta)))"
  have r: "fst (Update c tgt cur delta) = limit_apply (Controller.outputLimit c) ?w"
    by (rule Update_fst)
  have n: "is_nan (fst (Update c tgt cur delta)) = is_nan ?w"
    unfolding r using assms by (rule limit_apply_is_nan)
  have "in_limit (Controller.outputLimit c) (fst (Update c tgt cur delta))" if "\<not> is_nan ?w"
    unfolding r using assms that by (rule limit_apply_in_limit)
  with n show ?thesis by blast
qed

text \<open>
  The test \<^verbatim>\<open>output-limit-is-enforced\<close>: the weighted sum is 4.5 and the result is 3.
\<close>

theorem Update_output_in_limit_witness:
  "f64_le (lower (Controller.outputLimit controllerP)) (upper (Controller.outputLimit controllerP))
   \<and> fst (Update controllerP (Finite False 10) (Finite False 7) Second) = Finite False 3
   \<and> in_limit (Controller.outputLimit controllerP)
        (fst (Update controllerP (Finite False 10) (Finite False 7) Second))"
proof -
  have h: "f64_le (lower (Controller.outputLimit controllerP))
                  (upper (Controller.outputLimit controllerP))"
    by (simp add: controllerP_def)
  show ?thesis
    using h Update_output_in_limit[OF h, of "Finite False 10" "Finite False 7" Second]
    by (simp add: Update_controllerP)
qed

text \<open>
  C1, as the claim states it, fails: the controller without options, called once with
  the largest finite float as target and its negation as measurement over one second,
  returns NaN, which is not within the output limit. And a controller built with the
  inverted output bounds (3, -3) returns -3, the upper bound, which is below the lower.
\<close>

theorem Update_output_not_in_limit:
  "New [] = Inr controller0 \<and> is_f64 MaxFloat64 \<and> is_f64 (fneg MaxFloat64)
   \<and> fst (Update controller0 MaxFloat64 (fneg MaxFloat64) Second) = NaN
   \<and> \<not> in_limit (Controller.outputLimit controller0)
          (fst (Update controller0 MaxFloat64 (fneg MaxFloat64) Second))
   \<and> New [WithIntegralGain (Finite False 1), WithOutputLimit (Finite False 3) (Finite True 3)]
       = Inr controllerInv
   \<and> fst (Update controllerInv (Finite False 10) (Finite False 7) Second) = Finite True 3
   \<and> \<not> in_limit (Controller.outputLimit controllerInv)
          (fst (Update controllerInv (Finite False 10) (Finite False 7) Second))"
  by (simp add: New_nil Update_overflow New_controllerInv Update_controllerInv in_limit_def)
     (simp add: MaxFloat64_def controllerInv_def controller0_def f64_eval)

text \<open>
  C8. \<^verbatim>\<open>Update\<close> leaves the gains, the two limits, the two filter constants and the
  integration mode as they are; the controller it leaves is the one it was given with the
  accumulator, the derivative and the previous error assigned, each once.
\<close>

theorem Update_frame:
  "Controller.proportionalGain (snd (Update c tgt cur delta)) = Controller.proportionalGain c
   \<and> Controller.integralGain (snd (Update c tgt cur delta)) = Controller.integralGain c
   \<and> Controller.derivativeGain (snd (Update c tgt cur delta)) = Controller.derivativeGain c
   \<and> Controller.outputLimit (snd (Update c tgt cur delta)) = Controller.outputLimit c
   \<and> integralLimit (snd (Update c tgt cur delta)) = integralLimit c
   \<and> Controller.lowPassFilterError (snd (Update c tgt cur delta)) = Controller.lowPassFilterError c
   \<and> Controller.lowPassFilterDerivative (snd (Update c tgt cur delta))
       = Controller.lowPassFilterDerivative c
   \<and> Controller.trapezoidalIntegral (snd (Update c tgt cur delta))
       = Controller.trapezoidalIntegral c
   \<and> snd (Update c tgt cur delta) =
       c\<lparr> integral := limit_apply (integralLimit c)
                         (updateIntegral c (filteredError c tgt cur (Seconds delta)) (Seconds delta)),
          derivative := updateDerivative c (filteredError c tgt cur (Seconds delta)) (Seconds delta),
          prevControlError := filteredError c tgt cur (Seconds delta) \<rparr>"
  by (simp add: Update_snd)

text \<open>The configuration stays the same over a whole call history.\<close>

lemma Update_config:
  "Controller.proportionalGain (snd (Update c tgt cur delta)) = Controller.proportionalGain c"
  "Controller.integralGain (snd (Update c tgt cur delta)) = Controller.integralGain c"
  "Controller.derivativeGain (snd (Update c tgt cur delta)) = Controller.derivativeGain c"
  "Controller.outputLimit (snd (Update c tgt cur delta)) = Controller.outputLimit c"
  "integralLimit (snd (Update c tgt cur delta)) = integralLimit c"
  "Controller.lowPassFilterError (snd (Update c tgt cur delta)) = Controller.lowPassFilterError c"
  "Controller.lowPassFilterDerivative (snd (Update c tgt cur delta))
     = Controller.lowPassFilterDerivative c"
  "Controller.trapezoidalIntegral (snd (Update c tgt cur delta))
     = Controller.trapezoidalIntegral c"
  by (simp_all add: Update_snd)

lemma run_config:
  "Controller.proportionalGain (run c calls) = Controller.proportionalGain c"
  "Controller.integralGain (run c calls) = Controller.integralGain c"
  "Controller.derivativeGain (run c calls) = Controller.derivativeGain c"
  "Controller.outputLimit (run c calls) = Controller.outputLimit c"
  "integralLimit (run c calls) = integralLimit c"
  "Controller.lowPassFilterError (run c calls) = Controller.lowPassFilterError c"
  "Controller.lowPassFilterDerivative (run c calls) = Controller.lowPassFilterDerivative c"
  "Controller.trapezoidalIntegral (run c calls) = Controller.trapezoidalIntegral c"
  by (induction c calls rule: run.induct; simp add: Update_config)+

lemma Update_integral:
  "integral (snd (Update c tgt cur delta)) =
     limit_apply (integralLimit c)
       (updateIntegral c (filteredError c tgt cur (Seconds delta)) (Seconds delta))"
  by (simp add: Update_snd)


lemma New_controllerLI:
  "New [WithOutputLimit (Finite True 3) (Finite False 3), WithIntegralGain (Finite False (3 / 2))]
   = Inr controllerLI"
  by (simp add: option_eval controllerLI_def controller0_def f64_eval)

lemma New_controllerLI_swapped:
  "New [WithIntegralGain (Finite False (3 / 2)), WithOutputLimit (Finite True 3) (Finite False 3)]
   = Inr controllerLI"
  by (simp add: option_eval controllerLI_def controller0_def f64_eval)

lemma Update_controllerLI:
  "Update controllerLI (Finite False 10) (Finite False 7) Second =
     (Finite False 3, controllerLI\<lparr> integral := Finite False 2, derivative := Finite False 3,
                                     prevControlError := Finite False 3 \<rparr>)"
  by (simp add: controllerLI_def controller0_def update_eval Seconds_Second f64_eval)



section \<open>Construction\<close>

lemma f64_of_rat_numerals:
  "f64_of_rat 0 = Finite False 0"
  "f64_of_rat 1 = Finite False 1"
  "f64_of_rat 2 = Finite False 2"
  "f64_of_rat 8 = Finite False 8"
  "f64_of_rat 64 = Finite False 64"
  "f64_of_rat (6 / 10) = Finite False (5404319552844595 / 9007199254740992)"
  by (simp_all add: f64_eval)

text \<open>
  C5. The standard-form option sets the proportional gain to Kp, the integral gain to
  Kp / Ti, the derivative gain to Kp * Td, the derivative filter constant to Td / 8 and
  the error filter constant to Td / 64, and nothing else; with Kp = 2, Ti = 1 and
  Td = 0.25 the controller has the gains 2, 2 and 0.5 and the filter constants 1/256
  (error) and 1/32 (derivative).
\<close>

theorem WithStandardForm_fields:
  "(\<exists>ops'. WithStandardForm kp ti td ops = Inr ops'
      \<and> options.proportionalGain ops' = kp
      \<and> options.integralGain ops' = fdiv kp ti
      \<and> options.derivativeGain ops' = fmul kp td
      \<and> options.lowPassFilterDerivative ops' = fdiv td (Finite False 8)
      \<and> options.lowPassFilterError ops' = fdiv td (Finite False 64)
      \<and> options.outputLimit ops' = options.outputLimit ops
      \<and> options.trapezoidalIntegral ops' = options.trapezoidalIntegral ops)
   \<and> New [WithStandardForm (Finite False 2) (Finite False 1) (Finite False (1 / 4))]
       = Inr controllerSF
   \<and> Controller.proportionalGain controllerSF = Finite False 2
   \<and> Controller.integralGain controllerSF = Finite False 2
   \<and> Controller.derivativeGain controllerSF = Finite False (1 / 2)
   \<and> Controller.lowPassFilterError controllerSF = Finite False (1 / 256)
   \<and> Controller.lowPassFilterDerivative controllerSF = Finite False (1 / 32)"
proof -
  have "New [WithStandardForm (Finite False 2) (Finite False 1) (Finite False (1 / 4))]
       = Inr controllerSF"
    by (simp add: option_eval controllerSF_def controller0_def f64_eval)
  then show ?thesis
    by (simp add: WithStandardForm_def f64_of_rat_numerals controllerSF_def)
qed

text \<open>
  C7. The Ziegler-Nichols option is the standard-form option with Kp = 0.6 * Ku,
  Ti = Tu / 2 and Td = Tu / 8, where 0.6 is the float64 nearest to 0.6: applied to any
  options it gives the same options.
\<close>

theorem WithZieglerNicholsMethod_standard_form:
  "WithZieglerNicholsMethod ku tu =
     WithStandardForm (fmul (Finite False (5404319552844595 / 9007199254740992)) ku)
                      (fdiv tu (Finite False 2)) (fdiv tu (Finite False 8))
   \<and> WithZieglerNicholsMethod ku tu ops =
     WithStandardForm (fmul (f64_of_rat (6 / 10)) ku)
                      (fdiv tu (f64_of_rat 2)) (fdiv tu (f64_of_rat 8)) ops
   \<and> WithZieglerNicholsMethod (Finite False 10) (Finite False 2) ops =
     WithStandardForm (Finite False 6) (Finite False 1) (Finite False (1 / 4)) ops"
proof -
  have k: "f64_of_rat (6 / 10) = Finite False (5404319552844595 / 9007199254740992)"
    "f64_of_rat 2 = Finite False 2" "f64_of_rat 8 = Finite False 8"
    by (simp_all add: f64_eval)
  have e: "fmul (Finite False (5404319552844595 / 9007199254740992)) (Finite False 10) = Finite False 6"
       "fdiv (Finite False 2) (Finite False 2) = Finite False 1"
       "fdiv (Finite False 2) (Finite False 8) = Finite False (1 / 4)"
    by (simp_all add: f64_eval)
  show ?thesis
    unfolding WithZieglerNicholsMethod_def k e by (intro conjI refl)
qed

text \<open>
  C6. The integral limit of a constructed controller is derived from the integral gain
  and the output limit that the options leave: the output bounds divided by the integral
  gain when the gain is above zero, and \<open>(-Inf, +Inf)\<close> otherwise. Two option lists that
  leave the same integral gain and the same output limit give the same integral limit.
\<close>

theorem New_integralLimit:
  assumes "New opts = Inr c"
  shows "(\<exists>cfg. WithOptions opts defaultOptions = Inr cfg
            \<and> Controller.integralGain c = options.integralGain cfg
            \<and> Controller.outputLimit c = options.outputLimit cfg)
    \<and> integralLimit c =
        (if f64_gt (Controller.integralGain c) (Finite False 0)
         then newLimit (fdiv (lower (Controller.outputLimit c)) (Controller.integralGain c))
                       (fdiv (upper (Controller.outputLimit c)) (Controller.integralGain c))
         else newLimit (Infinity True) (Infinity False))
    \<and> (\<forall>opts' c'. New opts' = Inr c'
           \<longrightarrow> Controller.integralGain c' = Controller.integralGain c
           \<longrightarrow> Controller.outputLimit c' = Controller.outputLimit c
           \<longrightarrow> integralLimit c' = integralLimit c)"
proof -
  have *: "integralLimit d =
        (if f64_gt (Controller.integralGain d) (Finite False 0)
         then newLimit (fdiv (lower (Controller.outputLimit d)) (Controller.integralGain d))
                       (fdiv (upper (Controller.outputLimit d)) (Controller.integralGain d))
         else newLimit (Infinity True) (Infinity False))
       \<and> (\<exists>cfg. WithOptions os defaultOptions = Inr cfg
            \<and> Controller.integralGain d = options.integralGain cfg
            \<and> Controller.outputLimit d = options.outputLimit cfg)"
    if "New os = Inr d" for os d
    using that
    by (auto simp add: New_def Let_def f64_of_rat_numerals split: sum.splits if_splits)
  have "integralLimit c' = integralLimit c"
    if "New opts' = Inr c'" "Controller.integralGain c' = Controller.integralGain c"
       "Controller.outputLimit c' = Controller.outputLimit c" for opts' c'
    using *[OF that(1)] *[OF assms] that(2,3) by simp
  with *[OF assms] show ?thesis
    by blast
qed

theorem New_integralLimit_witness:
  "New [WithOutputLimit (Finite True 3) (Finite False 3), WithIntegralGain (Finite False (3 / 2))]
     = Inr controllerLI
   \<and> New [WithIntegralGain (Finite False (3 / 2)), WithOutputLimit (Finite True 3) (Finite False 3)]
     = Inr controllerLI
   \<and> f64_gt (Controller.integralGain controllerLI) (Finite False 0)
   \<and> integralLimit controllerLI =
       newLimit (fdiv (Finite True 3) (Finite False (3 / 2)))
                (fdiv (Finite False 3) (Finite False (3 / 2)))
   \<and> integralLimit controllerLI = \<lparr> lower = Finite True 2, upper = Finite False 2 \<rparr>"
  using New_integralLimit[OF New_controllerLI] New_controllerLI New_controllerLI_swapped
  by (simp add: controllerLI_def controller0_def f64_gt_def)

section \<open>Registration of the metrics\<close>

lemmas metrics_eval =
  newMetrics_def register_def listRegister_def NewCounterVec_def NewGaugeVec_def
  labels_def nameLabel_def pidCollectors_def pidMetrics_def

text \<open>On a fresh registry the four collectors are registered; a second controller gets the same four.\<close>

lemma newMetrics_fresh:
  "newMetrics ''a'' listRegister [] = (Inr (pidMetrics ''a''), pidCollectors)"
  by (simp add: metrics_eval)


text \<open>
  The variant without the helper returns the error of a second registration as it is.
\<close>

lemma newMetrics_loop_again:
  "newMetrics_loop ''b'' listRegister pidCollectors =
     (Inl (AlreadyRegisteredError (Collector CounterVecT ''pid_updates_total'' [''name''])
                                  (Collector CounterVecT ''pid_updates_total'' [''name''])),
      pidCollectors)"
  by (simp add: newMetrics_loop_def metrics_eval)

lemma registerAll_error:
  "Register reg c = (Some err, reg') \<Longrightarrow> registerAll Register reg (c # cs) = (Some err, reg')"
  by simp



section \<open>Properties of the arithmetic\<close>

text \<open>The operations return float64 values when given float64 values.\<close>

lemma round_mag_zero: "round_mag 0 = 0"
  by (simp add: round_mag_def)

lemma is_f64_round_sm: "0 \<le> m \<Longrightarrow> is_f64 (round_sm s m)"
  by (simp add: round_sm_def Let_def round_mag_nonneg round_mag_idem)

lemma round_sm_fixed: "is_f64 (Finite s m) \<Longrightarrow> round_sm t m = Finite t m"
  by (simp add: round_sm_def)

lemma is_f64_fadd: "is_f64 (fadd x y)"
  by (cases x; cases y) (simp_all add: Let_def is_f64_round_sm round_mag_zero)

lemma is_f64_fneg: "is_f64 (fneg x) = is_f64 x"
  by (cases x) simp_all

lemma is_f64_fsub: "is_f64 (fsub x y)"
  by (simp add: fsub_def is_f64_fadd)

lemma is_f64_fmul: "is_f64 x \<Longrightarrow> is_f64 y \<Longrightarrow> is_f64 (fmul x y)"
  by (cases x; cases y) (simp_all add: is_f64_round_sm)

lemma is_f64_fdiv: "is_f64 x \<Longrightarrow> is_f64 y \<Longrightarrow> is_f64 (fdiv x y)"
  by (cases x; cases y) (simp_all add: is_f64_round_sm round_mag_zero)

lemma is_f64_fmax: "is_f64 x \<Longrightarrow> is_f64 y \<Longrightarrow> is_f64 (fmax x y)"
  by (simp add: fmax_def round_mag_zero)

lemma is_f64_fmin: "is_f64 x \<Longrightarrow> is_f64 y \<Longrightarrow> is_f64 (fmin x y)"
  by (simp add: fmin_def round_mag_zero)

lemma is_f64_limit_apply:
  "is_f64 (lower l) \<Longrightarrow> is_f64 (upper l) \<Longrightarrow> is_f64 v \<Longrightarrow> is_f64 (limit_apply l v)"
  by (simp add: limit_apply_def is_f64_fmax is_f64_fmin)

lemma is_f64_updateIntegral: "is_f64 (updateIntegral c e step)"
  by (simp add: updateIntegral_def is_f64_fadd)

text \<open>Rounding keeps the order, and so do division and multiplication by a positive number.\<close>

lemma round_sm_mono:
  assumes "0 \<le> m" "0 \<le> n" "(if s then - m else m) \<le> (if t then - n else n)"
  shows "f64_le (round_sm s m) (round_sm t n)"
proof -
  have p: "0 \<le> round_mag m" "0 \<le> round_mag n"
    using assms by (simp_all add: round_mag_nonneg)
  show ?thesis
  proof (cases s; cases t)
    assume st: "\<not> s" "\<not> t"
    then have "round_mag m \<le> round_mag n" using assms by (simp add: round_mag_mono)
    then show ?thesis using st by (simp add: round_sm_def Let_def)
  next
    assume st: "s" "t"
    then have "round_mag n \<le> round_mag m" using assms by (simp add: round_mag_mono)
    then show ?thesis using st by (simp add: round_sm_def Let_def)
  next
    assume st: "s" "\<not> t"
    then show ?thesis using p by (simp add: round_sm_def Let_def)
  next
    assume st: "\<not> s" "t"
    then have "m = 0" "n = 0" using assms by simp_all
    then show ?thesis using st by (simp add: round_sm_def Let_def round_mag_zero)
  qed
qed

lemma round_sm_le_Infinity: "0 \<le> m \<Longrightarrow> f64_le (round_sm s m) (Infinity False)"
  by (simp add: round_sm_def Let_def)

lemma Infinity_le_round_sm: "0 \<le> m \<Longrightarrow> f64_le (Infinity True) (round_sm s m)"
  by (simp add: round_sm_def Let_def)

lemma positive_finite:
  assumes "is_f64 k" "is_finite k" "f64_lt (Finite False 0) k"
  obtains kk where "k = Finite False kk" "0 < kk"
  using assms by (cases k) (auto split: if_splits)

lemma fdiv_mono:
  assumes k: "is_f64 k" "is_finite k" "f64_lt (Finite False 0) k"
    and x: "is_f64 x" and y: "is_f64 y" and le: "f64_le x y"
  shows "f64_le (fdiv x k) (fdiv y k)"
proof -
  from k obtain kk where kk: "k = Finite False kk" "0 < kk" by (rule positive_finite)
  show ?thesis
  proof (cases x; cases y)
    fix s a t b assume xy: "x = Finite s a" "y = Finite t b"
    have ab: "0 \<le> a / kk" "0 \<le> b / kk" using x y kk xy by simp_all
    have "(if s then - a else a) / kk \<le> (if t then - b else b) / kk"
      using le kk xy by (intro divide_right_mono) simp_all
    then have "(if s then - (a / kk) else a / kk) \<le> (if t then - (b / kk) else b / kk)"
      by (simp split: if_splits)
    then have "f64_le (round_sm s (a / kk)) (round_sm t (b / kk))"
      using ab by (intro round_sm_mono)
    then show ?thesis using kk xy by simp
  qed (use le x y kk in \<open>auto simp add: round_sm_le_Infinity Infinity_le_round_sm\<close>)
qed

lemma fmul_mono:
  assumes k: "is_f64 k" "is_finite k" "f64_lt (Finite False 0) k"
    and x: "is_f64 x" and y: "is_f64 y" and le: "f64_le x y"
  shows "f64_le (fmul k x) (fmul k y)"
proof -
  from k obtain kk where kk: "k = Finite False kk" "0 < kk" by (rule positive_finite)
  show ?thesis
  proof (cases x; cases y)
    fix s a t b assume xy: "x = Finite s a" "y = Finite t b"
    have ab: "0 \<le> kk * a" "0 \<le> kk * b" using x y kk xy by simp_all
    have "kk * (if s then - a else a) \<le> kk * (if t then - b else b)"
      using le kk xy by (intro mult_left_mono) simp_all
    then have "(if s then - (kk * a) else kk * a) \<le> (if t then - (kk * b) else kk * b)"
      by (simp split: if_splits)
    then have "f64_le (round_sm s (kk * a)) (round_sm t (kk * b))"
      using ab by (intro round_sm_mono)
    then show ?thesis using kk xy by simp
  qed (use le x y kk in \<open>auto simp add: round_sm_le_Infinity Infinity_le_round_sm\<close>)
qed

lemma fdiv_mono_finite:
  assumes k: "is_f64 k" "f64_lt (Finite False 0) k"
    and x: "is_f64 x" "is_finite x" and y: "is_f64 y" "is_finite y" and le: "f64_le x y"
  shows "f64_le (fdiv x k) (fdiv y k)"
proof (cases "is_finite k")
  case True
  with k x y le show ?thesis by (intro fdiv_mono)
next
  case False
  with k x y show ?thesis by (cases k; cases x; cases y) simp_all
qed

text \<open>Adding a zero, or a product with a zero gain, changes a result by the sign of a zero at most.\<close>

lemma same_f64_refl: "same_f64 x x"
  by (cases x) (simp_all add: same_f64_def)

lemma same_f64_trans: "same_f64 x y \<Longrightarrow> same_f64 y z \<Longrightarrow> same_f64 x z"
  by (cases x; cases y; cases z) (simp_all add: same_f64_def)

lemma same_f64_fmax:
  assumes "same_f64 x y"
  shows "same_f64 (fmax l x) (fmax l y)"
  using assms
  by (cases l; cases x; cases y)
     (auto simp add: same_f64_def fmax_def f64_ne_def split: if_splits)

lemma same_f64_fmin:
  assumes "same_f64 x y"
  shows "same_f64 (fmin x h) (fmin y h)"
  using assms
  by (cases h; cases x; cases y)
     (auto simp add: same_f64_def fmin_def f64_ne_def split: if_splits)

lemma same_f64_limit_apply:
  assumes "same_f64 x y"
  shows "same_f64 (limit_apply l x) (limit_apply l y)"
  unfolding limit_apply_def using assms by (intro same_f64_fmin same_f64_fmax)

lemma fmul_zero_finite:
  assumes "f64_eq k (Finite False 0)" "is_finite x"
  shows "\<exists>u. fmul k x = Finite u 0"
  using assms
  by (cases k; cases x) (auto simp add: round_sm_def round_mag_zero split: if_splits)

lemma fadd_zero:
  assumes "is_f64 p"
  shows "same_f64 (fadd p (Finite u 0)) p"
proof (cases p)
  case (Finite s a)
  with assms have a: "0 \<le> a" "round_sm s a = Finite s a" "round_sm False a = Finite False a"
    by (simp_all add: round_sm_def)
  show ?thesis
    using a by (auto simp add: Finite same_f64_def Let_def)
qed (simp_all add: same_f64_def)

section \<open>Anti-windup\<close>

lemma New_Inr_integralLimit:
  assumes "New opts = Inr c"
  shows "integralLimit c =
        (if f64_gt (Controller.integralGain c) (Finite False 0)
         then newLimit (fdiv (lower (Controller.outputLimit c)) (Controller.integralGain c))
                       (fdiv (upper (Controller.outputLimit c)) (Controller.integralGain c))
         else newLimit (Infinity True) (Infinity False))"
  using assms
  by (auto simp add: New_def Let_def f64_of_rat_numerals split: sum.splits if_splits)

text \<open>
  C2, as the code has it. For a controller constructed with an integral gain above zero
  and a finite output limit with \<open>lower \<le> upper\<close>, all three float64 values, the integral
  limit is the pair of the float64 quotients \<open>lower / gain\<close> and \<open>upper / gain\<close>, and
  after every call of every history the accumulator is NaN or lies between the two
  quotients; when the gain is finite, the float64 product of the gain and the accumulator
  then lies between the products of the gain with the two quotients. These two products
  are \<open>lower\<close> and \<open>upper\<close> up to the rounding of the division and of the multiplication
  only.
\<close>

theorem Update_anti_windup:
  assumes new: "New opts = Inr c0"
    and gt: "f64_gt (Controller.integralGain c0) (Finite False 0)"
    and ki: "is_f64 (Controller.integralGain c0)"
    and lo: "is_f64 (lower (Controller.outputLimit c0))" "is_finite (lower (Controller.outputLimit c0))"
    and hi: "is_f64 (upper (Controller.outputLimit c0))" "is_finite (upper (Controller.outputLimit c0))"
    and le: "f64_le (lower (Controller.outputLimit c0)) (upper (Controller.outputLimit c0))"
  shows "integralLimit (snd (Update (run c0 calls) tgt cur delta)) =
           newLimit (fdiv (lower (Controller.outputLimit c0)) (Controller.integralGain c0))
                    (fdiv (upper (Controller.outputLimit c0)) (Controller.integralGain c0))
    \<and> (is_nan (integral (snd (Update (run c0 calls) tgt cur delta)))
       \<or> (f64_le (fdiv (lower (Controller.outputLimit c0)) (Controller.integralGain c0))
                  (integral (snd (Update (run c0 calls) tgt cur delta)))
          \<and> f64_le (integral (snd (Update (run c0 calls) tgt cur delta)))
                  (fdiv (upper (Controller.outputLimit c0)) (Controller.integralGain c0))
          \<and> (is_finite (Controller.integralGain c0) \<longrightarrow>
               f64_le (fmul (Controller.integralGain c0)
                        (fdiv (lower (Controller.outputLimit c0)) (Controller.integralGain c0)))
                  (fmul (Controller.integralGain c0)
                        (integral (snd (Update (run c0 calls) tgt cur delta))))
             \<and> f64_le (fmul (Controller.integralGain c0)
                        (integral (snd (Update (run c0 calls) tgt cur delta))))
                  (fmul (Controller.integralGain c0)
                        (fdiv (upper (Controller.outputLimit c0)) (Controller.integralGain c0))))))"
proof -
  let ?k = "Controller.integralGain c0"
  let ?lo = "fdiv (lower (Controller.outputLimit c0)) ?k"
  let ?hi = "fdiv (upper (Controller.outputLimit c0)) ?k"
  let ?c = "run c0 calls"
  let ?u = "updateIntegral ?c (filteredError ?c tgt cur (Seconds delta)) (Seconds delta)"
  let ?i = "integral (snd (Update ?c tgt cur delta))"
  have pos: "f64_lt (Finite False 0) ?k" using gt by (simp add: f64_gt_def)
  have lim: "integralLimit c0 = newLimit ?lo ?hi"
    using New_Inr_integralLimit[OF new] gt by simp
  have lim': "integralLimit (snd (Update ?c tgt cur delta)) = newLimit ?lo ?hi"
    by (simp add: Update_config run_config lim)
  have bounds: "f64_le ?lo ?hi"
    using ki pos lo hi le by (rule fdiv_mono_finite)
  have v: "is_f64 ?lo" "is_f64 ?hi"
    using ki lo hi by (simp_all add: is_f64_fdiv)
  have i: "?i = limit_apply (newLimit ?lo ?hi) ?u"
    by (simp add: Update_integral run_config lim)
  have vi: "is_f64 ?i"
    unfolding i using v by (intro is_f64_limit_apply) (simp_all add: newLimit_def is_f64_updateIntegral)
  have n: "is_nan ?i = is_nan ?u"
    unfolding i using bounds by (intro limit_apply_is_nan) (simp add: newLimit_def)
  have "f64_le ?lo ?i \<and> f64_le ?i ?hi
        \<and> (is_finite ?k \<longrightarrow> f64_le (fmul ?k ?lo) (fmul ?k ?i) \<and> f64_le (fmul ?k ?i) (fmul ?k ?hi))"
    if "\<not> is_nan ?i"
  proof -
    have "in_limit (newLimit ?lo ?hi) (limit_apply (newLimit ?lo ?hi) ?u)"
      using bounds that n by (intro limit_apply_in_limit) (simp_all add: newLimit_def)
    then have b: "f64_le ?lo ?i" "f64_le ?i ?hi"
      by (simp_all add: i in_limit_def newLimit_def)
    have "f64_le (fmul ?k ?lo) (fmul ?k ?i)" if "is_finite ?k"
      using ki that pos v(1) vi b(1) by (rule fmul_mono)
    moreover have "f64_le (fmul ?k ?i) (fmul ?k ?hi)" if "is_finite ?k"
      using ki that pos vi v(2) b(2) by (rule fmul_mono)
    ultimately show ?thesis using b by simp
  qed
  with lim' show ?thesis by blast
qed

lemma New_controllerAW:
  "New [WithIntegralGain (Finite False 25), WithOutputLimit (Finite True 7) (Finite False 7)]
   = Inr controllerAW"
  by (simp add: option_eval controllerAW_def controller0_def f64_eval)

lemma Update_controllerAW:
  "Update controllerAW (Finite False 1) (Finite False 0) Second =
     (Finite False 7,
      controllerAW\<lparr> integral := Finite False (1261007895663739 / 4503599627370496),
                     derivative := Finite False 1, prevControlError := Finite False 1 \<rparr>)"
  by (simp add: controllerAW_def controller0_def update_eval Seconds_Second f64_eval)

text \<open>
  The witness: integral gain 1.5 and output in [-3, 3]; after an error of 3 over one
  second the accumulator is 2, the upper quotient, and the product is 3.
\<close>

theorem Update_anti_windup_witness:
  "New [WithOutputLimit (Finite True 3) (Finite False 3), WithIntegralGain (Finite False (3 / 2))]
     = Inr controllerLI
   \<and> f64_gt (Controller.integralGain controllerLI) (Finite False 0)
   \<and> is_f64 (Controller.integralGain controllerLI)
   \<and> is_f64 (lower (Controller.outputLimit controllerLI))
   \<and> is_finite (lower (Controller.outputLimit controllerLI))
   \<and> is_f64 (upper (Controller.outputLimit controllerLI))
   \<and> is_finite (upper (Controller.outputLimit controllerLI))
   \<and> f64_le (lower (Controller.outputLimit controllerLI)) (upper (Controller.outputLimit controllerLI))
   \<and> is_finite (Controller.integralGain controllerLI)
   \<and> integral (snd (Update (run controllerLI []) (Finite False 10) (Finite False 7) Second))
       = Finite False 2
   \<and> f64_le (fdiv (Finite True 3) (Finite False (3 / 2))) (Finite False 2)
   \<and> f64_le (Finite False 2) (fdiv (Finite False 3) (Finite False (3 / 2)))
   \<and> f64_le (fmul (Finite False (3 / 2)) (Finite False 2))
             (fmul (Finite False (3 / 2)) (fdiv (Finite False 3) (Finite False (3 / 2))))"
proof -
  let ?i = "integral (snd (Update (run controllerLI []) (Finite False 10) (Finite False 7) Second))"
  have h: "f64_gt (Controller.integralGain controllerLI) (Finite False 0)"
    "is_f64 (Controller.integralGain controllerLI)"
    "is_f64 (lower (Controller.outputLimit controllerLI))"
    "is_finite (lower (Controller.outputLimit controllerLI))"
    "is_f64 (upper (Controller.outputLimit controllerLI))"
    "is_finite (upper (Controller.outputLimit controllerLI))"
    "f64_le (lower (Controller.outputLimit controllerLI)) (upper (Controller.outputLimit controllerLI))"
    by (simp_all add: controllerLI_def controller0_def f64_eval)
  have f: "is_finite (Controller.integralGain controllerLI)"
    by (simp add: controllerLI_def controller0_def)
  have v: "?i = Finite False 2"
    by (simp add: Update_controllerLI)
  have g: "Controller.integralGain controllerLI = Finite False (3 / 2)"
    "lower (Controller.outputLimit controllerLI) = Finite True 3"
    "upper (Controller.outputLimit controllerLI) = Finite False 3"
    by (simp_all add: controllerLI_def controller0_def)
  note t = Update_anti_windup[OF New_controllerLI h, of "[]" "Finite False 10" "Finite False 7" Second]
  have "\<not> is_nan ?i" unfolding v by simp
  with t f have "f64_le (fdiv (Finite True 3) (Finite False (3 / 2))) ?i
     \<and> f64_le ?i (fdiv (Finite False 3) (Finite False (3 / 2)))
     \<and> f64_le (fmul (Finite False (3 / 2)) ?i)
             (fmul (Finite False (3 / 2)) (fdiv (Finite False 3) (Finite False (3 / 2))))"
    unfolding g by blast
  then show ?thesis
    unfolding v using New_controllerLI h f v by blast
qed

text \<open>With trapezoidal integration the errors \<open>+Inf\<close> and \<open>-Inf\<close> of two calls add up to NaN.\<close>

lemma New_controllerAWT:
  "New [WithIntegralGain (Finite False 25), WithOutputLimit (Finite True 7) (Finite False 7),
        WithTrapezoidalIntegral True] = Inr controllerAWT"
  by (simp add: option_eval controllerAWT_def controllerAW_def controller0_def f64_eval)

lemma Update_controllerAWT:
  "Update controllerAWT MaxFloat64 (fneg MaxFloat64) Second =
     (NaN,
      controllerAWT\<lparr> integral := Finite False (1261007895663739 / 4503599627370496),
                      derivative := Infinity False, prevControlError := Infinity False \<rparr>)"
  by (simp add: controllerAWT_def controllerAW_def controller0_def MaxFloat64_def update_eval
        Seconds_Second f64_eval cong: let_weak_cong)

lemma Update_controllerAWT_back:
  "Update (controllerAWT\<lparr> integral := Finite False (1261007895663739 / 4503599627370496),
                      derivative := Infinity False, prevControlError := Infinity False \<rparr>)
      (fneg MaxFloat64) MaxFloat64 Second =
     (NaN,
      controllerAWT\<lparr> integral := NaN,
                      derivative := Infinity True, prevControlError := Infinity True \<rparr>)"
  by (simp add: controllerAWT_def controllerAW_def controller0_def MaxFloat64_def update_eval
        Seconds_Second f64_eval cong: let_weak_cong)

text \<open>With an infinite integral gain the integral limit is (-0, +0).\<close>

lemma New_controllerInfGain:
  "New [WithIntegralGain (Infinity False), WithOutputLimit (Finite True 7) (Finite False 7)]
     = Inr controllerInfGain"
  by (simp add: option_eval controllerInfGain_def controller0_def f64_eval)

lemma Update_controllerInfGain:
  "Update controllerInfGain (Finite False 1) (Finite False 0) Second =
     (NaN,
      controllerInfGain\<lparr> integral := Finite False 0, derivative := Finite False 1,
                          prevControlError := Finite False 1 \<rparr>)"
  by (simp add: controllerInfGain_def controller0_def update_eval Seconds_Second f64_eval
        cong: let_weak_cong)

text \<open>
  C2, as the claim states it, fails by rounding: with integral gain 25 and output in
  [-7, 7], one call with error 1 over one second leaves the accumulator at the float64
  quotient 7 / 25, which is above 7/25; the float64 product of the gain and the
  accumulator is the next float64 above 7, and the exact product is above 7 too. It
  fails by NaN as well: with the same gain and bounds and trapezoidal integration, two
  calls whose errors overflow to \<open>+Inf\<close> and \<open>-Inf\<close> leave the accumulator NaN; and with an
  infinite gain the accumulator is 0 and the product is NaN.
\<close>

theorem Update_anti_windup_exceeded:
  "New [WithIntegralGain (Finite False 25), WithOutputLimit (Finite True 7) (Finite False 7)]
     = Inr controllerAW
   \<and> f64_gt (Controller.integralGain controllerAW) (Finite False 0)
   \<and> Controller.outputLimit controllerAW = \<lparr> lower = Finite True 7, upper = Finite False 7 \<rparr>
   \<and> integral (snd (Update controllerAW (Finite False 1) (Finite False 0) Second))
       = Finite False (1261007895663739 / 4503599627370496)
   \<and> fmul (Controller.integralGain controllerAW)
           (integral (snd (Update controllerAW (Finite False 1) (Finite False 0) Second)))
       = Finite False (7881299347898369 / 1125899906842624)
   \<and> \<not> in_limit (Controller.outputLimit controllerAW)
          (fmul (Controller.integralGain controllerAW)
             (integral (snd (Update controllerAW (Finite False 1) (Finite False 0) Second))))
   \<and> 7 < valf (Controller.integralGain controllerAW)
           * valf (integral (snd (Update controllerAW (Finite False 1) (Finite False 0) Second)))
   \<and> New [WithIntegralGain (Finite False 25), WithOutputLimit (Finite True 7) (Finite False 7),
           WithTrapezoidalIntegral True] = Inr controllerAWT
   \<and> integral (run controllerAWT [(MaxFloat64, fneg MaxFloat64, Second),
                                   (fneg MaxFloat64, MaxFloat64, Second)]) = NaN
   \<and> New [WithIntegralGain (Infinity False), WithOutputLimit (Finite True 7) (Finite False 7)]
       = Inr controllerInfGain
   \<and> f64_gt (Controller.integralGain controllerInfGain) (Finite False 0)
   \<and> fmul (Controller.integralGain controllerInfGain)
           (integral (snd (Update controllerInfGain (Finite False 1) (Finite False 0) Second)))
       = NaN"
  by (simp add: New_controllerAW Update_controllerAW New_controllerAWT Update_controllerAWT
        Update_controllerAWT_back New_controllerInfGain Update_controllerInfGain)
     (simp add: controllerAW_def controllerInfGain_def controller0_def f64_eval)

section \<open>Pure proportional mode\<close>

lemma filteredError_off:
  "f64_eq (Controller.lowPassFilterError c) (Finite False 0) \<Longrightarrow>
     filteredError c tgt cur step = fsub tgt cur"
  by (simp add: filteredError_def f64_ne_def f64_of_rat_numerals)

text \<open>
  C4, as the code has it. With the integral gain and the derivative gain zero, the
  error filter off and a float64 proportional gain, a call that leaves a finite
  accumulator and a finite derivative returns the proportional gain times
  \<open>target - current\<close>, clamped to the output limit, up to the sign of a zero: the result
  is the same whatever the history before the call.
\<close>

theorem Update_proportional:
  assumes ki: "f64_eq (Controller.integralGain c) (Finite False 0)"
    and kd: "f64_eq (Controller.derivativeGain c) (Finite False 0)"
    and off: "f64_eq (Controller.lowPassFilterError c) (Finite False 0)"
    and kp: "is_f64 (Controller.proportionalGain c)"
    and fin: "is_finite (integral (snd (Update c tgt cur delta)))"
             "is_finite (derivative (snd (Update c tgt cur delta)))"
  shows "same_f64 (fst (Update c tgt cur delta))
           (limit_apply (Controller.outputLimit c)
              (fmul (Controller.proportionalGain c) (fsub tgt cur)))"
proof -
  let ?c' = "snd (Update c tgt cur delta)"
  let ?p = "fmul (Controller.proportionalGain c) (fsub tgt cur)"
  have e: "prevControlError ?c' = fsub tgt cur"
    by (simp add: Update_snd filteredError_off[OF off])
  obtain u where u: "fmul (Controller.integralGain c) (integral ?c') = Finite u 0"
    using fmul_zero_finite[OF ki fin(1)] by blast
  obtain w where w: "fmul (Controller.derivativeGain c) (derivative ?c') = Finite w 0"
    using fmul_zero_finite[OF kd fin(2)] by blast
  have s: "weightedSum ?c' (prevControlError ?c') = fadd (fadd ?p (Finite u 0)) (Finite w 0)"
    unfolding weightedSum_def e Update_config u w ..
  have p: "is_f64 ?p"
    using kp by (intro is_f64_fmul) (simp_all add: is_f64_fsub)
  have "same_f64 (fadd (fadd ?p (Finite u 0)) (Finite w 0)) (fadd ?p (Finite u 0))"
    by (intro fadd_zero is_f64_fadd)
  moreover have "same_f64 (fadd ?p (Finite u 0)) ?p"
    using p by (rule fadd_zero)
  ultimately have "same_f64 (weightedSum ?c' (prevControlError ?c')) ?p"
    unfolding s by (rule same_f64_trans)
  then show ?thesis
    unfolding Update_fst by (rule same_f64_limit_apply)
qed

lemma New_controllerF: "New [WithLowPassFilterError (Finite False 1)] = Inr controllerF"
  by (simp add: option_eval controllerF_def controller0_def f64_eval)

lemma Update_controllerF:
  "Update controllerF (Finite False 1) (Finite False 0) Second =
     (Finite False (1 / 2),
      controllerF\<lparr> integral := Finite False (1 / 2), derivative := Finite False (1 / 2),
                    prevControlError := Finite False (1 / 2) \<rparr>)"
  by (simp add: controllerF_def controller0_def update_eval Seconds_Second f64_eval)

lemma Update_controllerF_again:
  "Update (controllerF\<lparr> integral := Finite False (1 / 2), derivative := Finite False (1 / 2),
                    prevControlError := Finite False (1 / 2) \<rparr>)
          (Finite False 1) (Finite False 0) Second =
     (Finite False (3 / 4),
      controllerF\<lparr> integral := Finite False (5 / 4), derivative := Finite False (1 / 4),
                    prevControlError := Finite False (3 / 4) \<rparr>)"
  by (simp add: controllerF_def controller0_def update_eval Seconds_Second f64_eval)

lemma Update_controller0:
  "Update controller0 (Finite False 1) (Finite False 0) Second =
     (Finite False 1,
      controller0\<lparr> integral := Finite False 1, derivative := Finite False 1,
                    prevControlError := Finite False 1 \<rparr>)"
  by (simp add: controller0_def update_eval Seconds_Second f64_eval)

lemma Update_after_overflow:
  "Update (controller0\<lparr> integral := Infinity False, derivative := Infinity False,
                         prevControlError := Infinity False \<rparr>)
          (Finite False 1) (Finite False 0) Second =
     (NaN, controller0\<lparr> integral := Infinity False, derivative := Infinity True,
                         prevControlError := Finite False 1 \<rparr>)"
  by (simp add: controller0_def update_eval Seconds_Second f64_eval)

text \<open>The test \<^verbatim>\<open>output-limit-is-enforced\<close> again: 1.5 * (10 - 7) clamped to [-3, 3] is 3.\<close>

theorem Update_proportional_witness:
  "f64_eq (Controller.integralGain controllerP) (Finite False 0)
   \<and> f64_eq (Controller.derivativeGain controllerP) (Finite False 0)
   \<and> f64_eq (Controller.lowPassFilterError controllerP) (Finite False 0)
   \<and> is_f64 (Controller.proportionalGain controllerP)
   \<and> is_finite (integral (snd (Update controllerP (Finite False 10) (Finite False 7) Second)))
   \<and> is_finite (derivative (snd (Update controllerP (Finite False 10) (Finite False 7) Second)))
   \<and> same_f64 (fst (Update controllerP (Finite False 10) (Finite False 7) Second))
        (limit_apply (Controller.outputLimit controllerP)
           (fmul (Controller.proportionalGain controllerP)
                 (fsub (Finite False 10) (Finite False 7))))
   \<and> fst (Update controllerP (Finite False 10) (Finite False 7) Second) = Finite False 3"
proof -
  have h: "f64_eq (Controller.integralGain controllerP) (Finite False 0)"
    "f64_eq (Controller.derivativeGain controllerP) (Finite False 0)"
    "f64_eq (Controller.lowPassFilterError controllerP) (Finite False 0)"
    "is_f64 (Controller.proportionalGain controllerP)"
    by (simp_all add: controllerP_def controller0_def f64_eval)
  have f: "is_finite (integral (snd (Update controllerP (Finite False 10) (Finite False 7) Second)))"
    "is_finite (derivative (snd (Update controllerP (Finite False 10) (Finite False 7) Second)))"
    by (simp_all add: Update_controllerP)
  have v: "fst (Update controllerP (Finite False 10) (Finite False 7) Second) = Finite False 3"
    by (simp add: Update_controllerP)
  note t = Update_proportional[OF h f]
  show ?thesis
    by (intro conjI) (rule h f t v)+
qed

lemma New_controllerNeg: "New [WithProportionalGain (Finite True 1)] = Inr controllerNeg"
  by (simp add: option_eval controllerNeg_def controller0_def f64_eval)

lemma Update_controllerNeg:
  "Update controllerNeg (Finite False 1) (Finite False 1) Second =
     (Finite False 0,
      controllerNeg\<lparr> integral := Finite False 0, derivative := Finite False 0,
                      prevControlError := Finite False 0 \<rparr>)"
  by (simp add: controllerNeg_def controller0_def update_eval Seconds_Second f64_eval
        cong: let_weak_cong)

lemma clamp_controllerNeg:
  "limit_apply (Controller.outputLimit controllerNeg)
     (fmul (Controller.proportionalGain controllerNeg) (fsub (Finite False 1) (Finite False 1)))
   = Finite True 0"
  by (simp add: controllerNeg_def controller0_def f64_eval)

text \<open>
  C4, as the claim states it, fails. With the error filter on (time constant 1) and
  both gains zero, two calls with target 1 and measurement 0 over one second return 0.5
  and then 0.75, not 1. With the filter off, the controller without options returns 1 for
  these inputs when it is fresh, and NaN after a call whose error overflowed, since the
  accumulator is infinite and its product with the zero gain is NaN. And with
  proportional gain -1 and the measurement on target the result is \<open>+0\<close>, where the
  clamped product is \<open>-0\<close>.
\<close>

theorem Update_proportional_history:
  "New [WithLowPassFilterError (Finite False 1)] = Inr controllerF
   \<and> Controller.integralGain controllerF = Finite False 0
   \<and> Controller.derivativeGain controllerF = Finite False 0
   \<and> limit_apply (Controller.outputLimit controllerF)
        (fmul (Controller.proportionalGain controllerF) (fsub (Finite False 1) (Finite False 0)))
       = Finite False 1
   \<and> outputs controllerF [(Finite False 1, Finite False 0, Second),
                            (Finite False 1, Finite False 0, Second)]
       = [Finite False (1 / 2), Finite False (3 / 4)]
   \<and> New [] = Inr controller0
   \<and> Controller.integralGain controller0 = Finite False 0
   \<and> Controller.derivativeGain controller0 = Finite False 0
   \<and> Controller.lowPassFilterError controller0 = Finite False 0
   \<and> outputs controller0 [(Finite False 1, Finite False 0, Second)] = [Finite False 1]
   \<and> outputs controller0 [(MaxFloat64, fneg MaxFloat64, Second),
                            (Finite False 1, Finite False 0, Second)] = [NaN, NaN]
   \<and> New [WithProportionalGain (Finite True 1)] = Inr controllerNeg
   \<and> fst (Update controllerNeg (Finite False 1) (Finite False 1) Second) = Finite False 0
   \<and> limit_apply (Controller.outputLimit controllerNeg)
        (fmul (Controller.proportionalGain controllerNeg) (fsub (Finite False 1) (Finite False 1)))
       = Finite True 0"
  by (simp add: New_controllerF New_nil Update_controllerF Update_controllerF_again
        Update_controller0 Update_overflow Update_after_overflow New_controllerNeg
        Update_controllerNeg clamp_controllerNeg)
     (simp add: controllerF_def controller0_def f64_eval)

section \<open>The tests and the example of the package\<close>

text \<open>
  The six cases of \<^verbatim>\<open>TestController\<close>, each with target 10 and steps of one second:
  the controller constructed, the outputs, and the controller after the calls.
\<close>

lemma test_proportional:
  "New [WithProportionalGain (Finite False (3 / 2)),
        WithIntegralGain (Finite False 0),
        WithDerivativeGain (Finite False 0)]
     = Inr (controller0\<lparr> Controller.proportionalGain := Finite False (3 / 2),
                   Controller.integralGain := Finite False 0,
                   Controller.derivativeGain := Finite False 0 \<rparr>)
   \<and> outputs (controller0\<lparr> Controller.proportionalGain := Finite False (3 / 2),
                   Controller.integralGain := Finite False 0,
                   Controller.derivativeGain := Finite False 0 \<rparr>)
        [(Finite False 10, Finite False 7, Second)]
     = [Finite False (9 / 2)]
   \<and> run (controller0\<lparr> Controller.proportionalGain := Finite False (3 / 2),
                   Controller.integralGain := Finite False 0,
                   Controller.derivativeGain := Finite False 0 \<rparr>)
        [(Finite False 10, Finite False 7, Second)]
     = controller0\<lparr> Controller.proportionalGain := Finite False (3 / 2),
                   Controller.integralGain := Finite False 0,
                   Controller.derivativeGain := Finite False 0,
                   prevControlError := Finite False 3,
                   integral := Finite False 3,
                   derivative := Finite False 3 \<rparr>"
  by (simp add: option_eval controller0_def update_eval Seconds_Second f64_eval
        cong: let_weak_cong)

lemma test_integral:
  "New [WithProportionalGain (Finite False 0),
        WithIntegralGain (Finite False (3 / 2)),
        WithDerivativeGain (Finite False 0)]
     = Inr (controller0\<lparr> Controller.proportionalGain := Finite False 0,
                   Controller.integralGain := Finite False (3 / 2),
                   Controller.derivativeGain := Finite False 0 \<rparr>)
   \<and> outputs (controller0\<lparr> Controller.proportionalGain := Finite False 0,
                   Controller.integralGain := Finite False (3 / 2),
                   Controller.derivativeGain := Finite False 0 \<rparr>)
        [(Finite False 10, Finite False 7, Second), (Finite False 10, Finite False 8, Second)]
     = [Finite False (9 / 2), Finite False (15 / 2)]
   \<and> run (controller0\<lparr> Controller.proportionalGain := Finite False 0,
                   Controller.integralGain := Finite False (3 / 2),
                   Controller.derivativeGain := Finite False 0 \<rparr>)
        [(Finite False 10, Finite False 7, Second), (Finite False 10, Finite False 8, Second)]
     = controller0\<lparr> Controller.proportionalGain := Finite False 0,
                   Controller.integralGain := Finite False (3 / 2),
                   Controller.derivativeGain := Finite False 0,
                   prevControlError := Finite False 2,
                   integral := Finite False 5,
                   derivative := Finite True 1 \<rparr>"
  by (simp add: option_eval controller0_def update_eval Seconds_Second f64_eval
        cong: let_weak_cong)

lemma test_derivative:
  "New [WithProportionalGain (Finite False 0),
        WithIntegralGain (Finite False 0),
        WithDerivativeGain (Finite False (3 / 2))]
     = Inr (controller0\<lparr> Controller.proportionalGain := Finite False 0,
                   Controller.integralGain := Finite False 0,
                   Controller.derivativeGain := Finite False (3 / 2) \<rparr>)
   \<and> outputs (controller0\<lparr> Controller.proportionalGain := Finite False 0,
                   Controller.integralGain := Finite False 0,
                   Controller.derivativeGain := Finite False (3 / 2) \<rparr>)
        [(Finite False 10, Finite False 7, Second), (Finite False 10, Finite False 2, Second)]
     = [Finite False (9 / 2), Finite False (15 / 2)]
   \<and> run (controller0\<lparr> Controller.proportionalGain := Finite False 0,
                   Controller.integralGain := Finite False 0,
                   Controller.derivativeGain := Finite False (3 / 2) \<rparr>)
        [(Finite False 10, Finite False 7, Second), (Finite False 10, Finite False 2, Second)]
     = controller0\<lparr> Controller.proportionalGain := Finite False 0,
                   Controller.integralGain := Finite False 0,
                   Controller.derivativeGain := Finite False (3 / 2),
                   prevControlError := Finite False 8,
                   integral := Finite False 11,
                   derivative := Finite False 5 \<rparr>"
  by (simp add: option_eval controller0_def update_eval Seconds_Second f64_eval
        cong: let_weak_cong)

lemma test_full_pid:
  "New [WithProportionalGain (Finite False 2),
        WithIntegralGain (Finite False 1),
        WithDerivativeGain (Finite False (1 / 2))]
     = Inr (controller0\<lparr> Controller.proportionalGain := Finite False 2,
                   Controller.integralGain := Finite False 1,
                   Controller.derivativeGain := Finite False (1 / 2) \<rparr>)
   \<and> outputs (controller0\<lparr> Controller.proportionalGain := Finite False 2,
                   Controller.integralGain := Finite False 1,
                   Controller.derivativeGain := Finite False (1 / 2) \<rparr>)
        [(Finite False 10, Finite False 7, Second), (Finite False 10, Finite False 8, Second)]
     = [Finite False (21 / 2), Finite False (17 / 2)]
   \<and> run (controller0\<lparr> Controller.proportionalGain := Finite False 2,
                   Controller.integralGain := Finite False 1,
                   Controller.derivativeGain := Finite False (1 / 2) \<rparr>)
        [(Finite False 10, Finite False 7, Second), (Finite False 10, Finite False 8, Second)]
     = controller0\<lparr> Controller.proportionalGain := Finite False 2,
                   Controller.integralGain := Finite False 1,
                   Controller.derivativeGain := Finite False (1 / 2),
                   prevControlError := Finite False 2,
                   integral := Finite False 5,
                   derivative := Finite True 1 \<rparr>"
  by (simp add: option_eval controller0_def update_eval Seconds_Second f64_eval
        cong: let_weak_cong)

lemma test_zero_gains:
  "New [WithProportionalGain (Finite False 0),
        WithIntegralGain (Finite False 0),
        WithDerivativeGain (Finite False 0)]
     = Inr (controller0\<lparr> Controller.proportionalGain := Finite False 0,
                   Controller.integralGain := Finite False 0,
                   Controller.derivativeGain := Finite False 0 \<rparr>)
   \<and> outputs (controller0\<lparr> Controller.proportionalGain := Finite False 0,
                   Controller.integralGain := Finite False 0,
                   Controller.derivativeGain := Finite False 0 \<rparr>)
        [(Finite False 10, Finite False 0, Second)]
     = [Finite False 0]
   \<and> run (controller0\<lparr> Controller.proportionalGain := Finite False 0,
                   Controller.integralGain := Finite False 0,
                   Controller.derivativeGain := Finite False 0 \<rparr>)
        [(Finite False 10, Finite False 0, Second)]
     = controller0\<lparr> Controller.proportionalGain := Finite False 0,
                   Controller.integralGain := Finite False 0,
                   Controller.derivativeGain := Finite False 0,
                   prevControlError := Finite False 10,
                   integral := Finite False 10,
                   derivative := Finite False 10 \<rparr>"
  by (simp add: option_eval controller0_def update_eval Seconds_Second f64_eval
        cong: let_weak_cong)

lemma test_output_limit:
  "New [WithProportionalGain (Finite False (3 / 2)),
        WithIntegralGain (Finite False 0),
        WithDerivativeGain (Finite False 0),
        WithOutputLimit (Finite True 3) (Finite False 3)]
     = Inr (controller0\<lparr> Controller.proportionalGain := Finite False (3 / 2),
                   Controller.integralGain := Finite False 0,
                   Controller.derivativeGain := Finite False 0,
                   Controller.outputLimit := \<lparr> lower = Finite True 3, upper = Finite False 3 \<rparr> \<rparr>)
   \<and> outputs (controller0\<lparr> Controller.proportionalGain := Finite False (3 / 2),
                   Controller.integralGain := Finite False 0,
                   Controller.derivativeGain := Finite False 0,
                   Controller.outputLimit := \<lparr> lower = Finite True 3, upper = Finite False 3 \<rparr> \<rparr>)
        [(Finite False 10, Finite False 7, Second)]
     = [Finite False 3]
   \<and> run (controller0\<lparr> Controller.proportionalGain := Finite False (3 / 2),
                   Controller.integralGain := Finite False 0,
                   Controller.derivativeGain := Finite False 0,
                   Controller.outputLimit := \<lparr> lower = Finite True 3, upper = Finite False 3 \<rparr> \<rparr>)
        [(Finite False 10, Finite False 7, Second)]
     = controller0\<lparr> Controller.proportionalGain := Finite False (3 / 2),
                   Controller.integralGain := Finite False 0,
                   Controller.derivativeGain := Finite False 0,
                   Controller.outputLimit := \<lparr> lower = Finite True 3, upper = Finite False 3 \<rparr>,
                   prevControlError := Finite False 3,
                   integral := Finite False 3,
                   derivative := Finite False 3 \<rparr>"
  by (simp add: option_eval controller0_def update_eval Seconds_Second f64_eval
        cong: let_weak_cong)

text \<open>
  \<^verbatim>\<open>ExampleController_Update\<close>: five steps of 100ms with target 1, the measurement
  moved by a quarter of the control signal after each step. The control signals and the
  measurements print, with two decimals, as 1.00, 1.00, 0.45, 0.55, 0.39 and
  0.25, 0.50, 0.61, 0.75, 0.85.
\<close>

lemma f64_of_rat_fifth: "f64_of_rat (2 / 10) = Finite False (3602879701896397 / 18014398509481984)"
  by (simp add: f64_eval)

lemma Seconds_100ms: "Seconds 100000000 = Finite False (3602879701896397 / 36028797018963968)"
  apply (simp add: Seconds_def tdiv_def tmod_def)
  apply (simp add: f64_eval)
  done

lemma New_controllerEx:
  "New [WithStandardForm (Finite False (3 / 2)) (Finite False 1)
          (Finite False (3602879701896397 / 18014398509481984)),
        WithTrapezoidalIntegral True,
        WithOutputLimit (Finite True 1) (Finite False 1)] = Inr controllerEx"
  by (simp add: option_eval controllerEx_def f64_eval)

lemma example_step1:
  "Update controllerEx
      (Finite False 1) (Finite False 0) 100000000 =
     (Finite False 1,
      (controllerEx\<lparr> integral := Finite False (1746850764555829 / 36028797018963968),
        derivative := Finite False (1091781727847393 / 140737488355328),
        prevControlError := Finite False (1091781727847393 / 1125899906842624) \<rparr>))"
  by (simp add: controllerEx_def update_eval Seconds_100ms f64_eval cong: let_weak_cong)

lemma example_measurement1:
  "fadd (Finite False 0) (fmul (Finite False (1 / 4)) (Finite False 1)) = Finite False (1 / 4)"
  by (simp add: f64_eval)

lemma example_step2:
  "Update (controllerEx\<lparr> integral := Finite False (1746850764555829 / 36028797018963968),
        derivative := Finite False (1091781727847393 / 140737488355328),
        prevControlError := Finite False (1091781727847393 / 1125899906842624) \<rparr>)
      (Finite False 1) (Finite False (1 / 4)) 100000000 =
     (Finite False 1,
      (controllerEx\<lparr> integral := Finite False (607096809272717 / 4503599627370496),
        derivative := Finite True (86019166436461 / 562949953421312),
        prevControlError := Finite False (6815364725350393 / 9007199254740992) \<rparr>))"
  by (simp add: controllerEx_def update_eval Seconds_100ms f64_eval cong: let_weak_cong)

lemma example_measurement2:
  "fadd (Finite False (1 / 4)) (fmul (Finite False (1 / 4)) (Finite False 1)) = Finite False (1 / 2)"
  by (simp add: f64_eval)

lemma example_step3:
  "Update (controllerEx\<lparr> integral := Finite False (607096809272717 / 4503599627370496),
        derivative := Finite True (86019166436461 / 562949953421312),
        prevControlError := Finite False (6815364725350393 / 9007199254740992) \<rparr>)
      (Finite False 1) (Finite False (1 / 2)) 100000000 =
     (Finite False (4073260174472059 / 9007199254740992),
      (controllerEx\<lparr> integral := Finite False (1783644510572357 / 9007199254740992),
        derivative := Finite True (4552238553473817 / 2251799813685248),
        prevControlError := Finite False (4573653115188069 / 9007199254740992) \<rparr>))"
  by (simp add: controllerEx_def update_eval Seconds_100ms f64_eval cong: let_weak_cong)

lemma example_measurement3:
  "fadd (Finite False (1 / 2)) (fmul (Finite False (1 / 4)) (Finite False (4073260174472059 / 9007199254740992))) = Finite False (5521914670988511 / 9007199254740992)"
  by (simp add: f64_eval)

lemma example_step4:
  "Update (controllerEx\<lparr> integral := Finite False (1783644510572357 / 9007199254740992),
        derivative := Finite True (4552238553473817 / 2251799813685248),
        prevControlError := Finite False (4573653115188069 / 9007199254740992) \<rparr>)
      (Finite False 1) (Finite False (5521914670988511 / 9007199254740992)) 100000000 =
     (Finite False (4934291177369775 / 9007199254740992),
      (controllerEx\<lparr> integral := Finite False (4376480877497665 / 18014398509481984),
        derivative := Finite True (6042446088776051 / 4503599627370496),
        prevControlError := Finite False (1759132724170719 / 4503599627370496) \<rparr>))"
  by (simp add: controllerEx_def update_eval Seconds_100ms f64_eval cong: let_weak_cong)

lemma example_measurement4:
  "fadd (Finite False (5521914670988511 / 9007199254740992)) (fmul (Finite False (1 / 4)) (Finite False (4934291177369775 / 9007199254740992))) = Finite False (6755487465330955 / 9007199254740992)"
  by (simp add: f64_eval)

lemma example_step5:
  "Update (controllerEx\<lparr> integral := Finite False (4376480877497665 / 18014398509481984),
        derivative := Finite True (6042446088776051 / 4503599627370496),
        prevControlError := Finite False (1759132724170719 / 4503599627370496) \<rparr>)
      (Finite False 1) (Finite False (6755487465330955 / 9007199254740992)) 100000000 =
     (Finite False (3480416468261549 / 9007199254740992),
      (controllerEx\<lparr> integral := Finite False (2478658321331757 / 9007199254740992),
        derivative := Finite True (3060591098926383 / 2251799813685248),
        prevControlError := Finite False (2290092203317049 / 9007199254740992) \<rparr>))"
  by (simp add: controllerEx_def update_eval Seconds_100ms f64_eval cong: let_weak_cong)

lemma example_measurement5:
  "fadd (Finite False (6755487465330955 / 9007199254740992)) (fmul (Finite False (1 / 4)) (Finite False (3480416468261549 / 9007199254740992))) = Finite False (3812795791198171 / 4503599627370496)"
  by (simp add: f64_eval)

lemma example_outputs:
  "outputs controllerEx
     [(Finite False 1, Finite False 0, 100000000),
      (Finite False 1, Finite False (1 / 4), 100000000),
      (Finite False 1, Finite False (1 / 2), 100000000),
      (Finite False 1, Finite False (5521914670988511 / 9007199254740992), 100000000),
      (Finite False 1, Finite False (6755487465330955 / 9007199254740992), 100000000)]
   = [Finite False 1,
      Finite False 1,
      Finite False (4073260174472059 / 9007199254740992),
      Finite False (4934291177369775 / 9007199254740992),
      Finite False (3480416468261549 / 9007199254740992)]"
  by (simp add: example_step1 example_step2 example_step3 example_step4 example_step5)

lemma example_printed:
  "map (\<lambda>x. \<lfloor>valf x * 100 + 1 / 2\<rfloor>)
     [Finite False 1, Finite False 1,
      Finite False (4073260174472059 / 9007199254740992),
      Finite False (4934291177369775 / 9007199254740992),
      Finite False (3480416468261549 / 9007199254740992)] = [100, 100, 45, 55, 39]
   \<and> map (\<lambda>x. \<lfloor>valf x * 100 + 1 / 2\<rfloor>)
     [Finite False (1 / 4), Finite False (1 / 2),
      Finite False (5521914670988511 / 9007199254740992),
      Finite False (6755487465330955 / 9007199254740992),
      Finite False (3812795791198171 / 4503599627370496)] = [25, 50, 61, 75, 85]"
  by (simp add: floor_rat_numeral_div)


end
